theory Spec2Isabelle
  imports Complex_Main
begin

section \<open>Shallow embedding of regl-graph (src/graph/graph.js)\<close>

text \<open>
  The class \<open>ReglGraph\<close> is embedded as functions over explicit records. JavaScript
  numbers on the picking and interaction side are finite reals (rounding, the
  sign of zero and non-finite values are outside this part of the model; the canvas
  width and height are nonzero there). The loader, where \<open>undefined\<close>, \<open>NaN\<close> and the
  infinities are ordinary intermediate values, uses the value type \<open>jsv\<close> below.
  A thrown exception is a value \<open>Inl e\<close> of a sum type.
\<close>

datatype error =
    Error string    \<comment> \<open>\<open>throw new Error(message)\<close> of the constructor\<close>
  | TypeError       \<comment> \<open>reading a property of \<open>undefined\<close>\<close>

subsection \<open>gl-matrix: \<open>mat3\<close> (column-major, nine entries) and \<open>vec3\<close>\<close>

datatype mat3 = Mat3 real real real real real real real real real

definition mat3_create :: mat3 where
  "mat3_create = Mat3 1 0 0 0 1 0 0 0 1"

fun mat3_multiply :: "mat3 \<Rightarrow> mat3 \<Rightarrow> mat3" where
  "mat3_multiply (Mat3 a00 a01 a02 a10 a11 a12 a20 a21 a22)
                 (Mat3 b00 b01 b02 b10 b11 b12 b20 b21 b22) =
     Mat3 (b00 * a00 + b01 * a10 + b02 * a20)
          (b00 * a01 + b01 * a11 + b02 * a21)
          (b00 * a02 + b01 * a12 + b02 * a22)
          (b10 * a00 + b11 * a10 + b12 * a20)
          (b10 * a01 + b11 * a11 + b12 * a21)
          (b10 * a02 + b11 * a12 + b12 * a22)
          (b20 * a00 + b21 * a10 + b22 * a20)
          (b20 * a01 + b21 * a11 + b22 * a21)
          (b20 * a02 + b21 * a12 + b22 * a22)"

fun mat3_det :: "mat3 \<Rightarrow> real" where
  "mat3_det (Mat3 a00 a01 a02 a10 a11 a12 a20 a21 a22) =
     a00 * (a22 * a11 - a12 * a21)
   + a01 * (- a22 * a10 + a12 * a20)
   + a02 * (a21 * a10 - a11 * a20)"

text \<open>\<open>mat3.invert\<close> returns \<open>null\<close> (here \<open>None\<close>) when the determinant is zero.\<close>

fun mat3_invert :: "mat3 \<Rightarrow> mat3 option" where
  "mat3_invert (Mat3 a00 a01 a02 a10 a11 a12 a20 a21 a22) =
     (let b01 = a22 * a11 - a12 * a21;
          b11 = - a22 * a10 + a12 * a20;
          b21 = a21 * a10 - a11 * a20;
          det = a00 * b01 + a01 * b11 + a02 * b21
      in if det = 0 then None
         else (let det' = 1 / det in
           Some (Mat3 (b01 * det')
                      ((- a22 * a01 + a02 * a21) * det')
                      ((a12 * a01 - a02 * a11) * det')
                      (b11 * det')
                      ((a22 * a00 - a02 * a20) * det')
                      ((- a12 * a00 + a02 * a10) * det')
                      (b21 * det')
                      ((- a21 * a00 + a01 * a20) * det')
                      ((a11 * a00 - a01 * a10) * det'))))"

definition mat3_projection :: "real \<Rightarrow> real \<Rightarrow> mat3" where
  "mat3_projection w h = Mat3 (2 / w) 0 0 0 (- 2 / h) 0 (- 1) 1 1"

fun mat3_translate :: "mat3 \<Rightarrow> real \<times> real \<Rightarrow> mat3" where
  "mat3_translate (Mat3 a00 a01 a02 a10 a11 a12 a20 a21 a22) (x, y) =
     Mat3 a00 a01 a02 a10 a11 a12
          (x * a00 + y * a10 + a20)
          (x * a01 + y * a11 + a21)
          (x * a02 + y * a12 + a22)"

fun mat3_scale :: "mat3 \<Rightarrow> real \<times> real \<Rightarrow> mat3" where
  "mat3_scale (Mat3 a00 a01 a02 a10 a11 a12 a20 a21 a22) (x, y) =
     Mat3 (x * a00) (x * a01) (x * a02) (y * a10) (y * a11) (y * a12) a20 a21 a22"

fun vec3_transformMat3 :: "real \<times> real \<times> real \<Rightarrow> mat3 \<Rightarrow> real \<times> real \<times> real" where
  "vec3_transformMat3 (x, y, z) (Mat3 m0 m1 m2 m3 m4 m5 m6 m7 m8) =
     (x * m0 + y * m3 + z * m6, x * m1 + y * m4 + z * m7, x * m2 + y * m5 + z * m8)"

text \<open>Entry 0 of the model matrix, read by \<open>render\<close> as the zoom level.\<close>

fun mat3_elem0 :: "mat3 \<Rightarrow> real" where
  "mat3_elem0 (Mat3 a00 a01 a02 a10 a11 a12 a20 a21 a22) = a00"

subsection \<open>The instance: \<open>this.app\<close>, \<open>this.state\<close>, \<open>this.searchIndex\<close>\<close>

type_synonym node_id = string

text \<open>
  The KDBush index: the indexed points (the render positions \<open>[x, y, index]\<close>) and
  its \<open>range\<close> method, which answers a bounding box with a list of point indices.
\<close>

record kdbush =
  kd_points :: "(real \<times> real \<times> real) list"
  kd_range :: "real \<Rightarrow> real \<Rightarrow> real \<Rightarrow> real \<Rightarrow> nat list"

text \<open>
  The ngraph adjacency store, opaque to the engine: \<open>g_nodes\<close> gives, for the id of
  a stored node, its \<open>data.index\<close>; \<open>g_linked\<close> lists the \<open>data.index\<close> of the nodes
  that \<open>forEachLinkedNode\<close> visits for a stored node.
\<close>

record ngraph =
  g_nodes :: "node_id \<rightharpoonup> int"
  g_linked :: "node_id \<Rightarrow> int list"

record app =
  width :: real
  height :: real
  devicePixelRatio :: real      \<comment> \<open>\<open>window.devicePixelRatio\<close>\<close>
  nodeIndex :: "int \<rightharpoonup> node_id"
  graph :: ngraph
  searchIndex :: kdbush

record state =
  transform :: mat3
  projection :: mat3
  mousePosition :: "real \<times> real"
  mouseDown :: bool
  hoveredNode :: int
  hoverNeighbors :: "int list"
  selectedNode :: int
  selectedNeighbors :: "int list"
  highlightedNodes :: "int list"
  inAnimation :: bool

text \<open>
  What a call does besides changing \<open>this.state\<close> is appended to a trace: library
  events raised, frames rendered, cursor and tooltip calls, and the assignments to the
  hover and selection fields (so that their order within one call can be read off).
\<close>

datatype event =
    NodeSelect "node_id option"
  | Click "node_id option"
  | NodeOver "node_id option"
  | NodeOut "node_id option"
  | Zoom real real real

datatype effect =
    Raised event
  | Rendered
  | CursorStyle string
  | TooltipShow "node_id option"
  | TooltipHide
  | Assigned string

record regl_graph =
  rg_app :: app
  rg_state :: state
  trace :: "effect list"

definition emit :: "effect \<Rightarrow> regl_graph \<Rightarrow> regl_graph" where
  "emit e g = g\<lparr>trace := trace g @ [e]\<rparr>"

definition raiseEvent :: "event \<Rightarrow> regl_graph \<Rightarrow> regl_graph" where
  "raiseEvent ev g = emit (Raised ev) g"

definition render :: "regl_graph \<Rightarrow> regl_graph" where
  "render g = emit Rendered g"

definition setCursorStyle :: "string \<Rightarrow> regl_graph \<Rightarrow> regl_graph" where
  "setCursorStyle v g = emit (CursorStyle v) g"

subsection \<open>Nodes and neighbours\<close>

text \<open>
  \<open>graph.getNode(id)\<close>: the node object (named by its id), or \<open>undefined\<close>.
  \<open>getNodeByIndex\<close> and \<open>getNodeNeighbors\<close> read \<open>this.app\<close> only and take it as argument.
\<close>

definition getNode :: "ngraph \<Rightarrow> node_id option \<Rightarrow> node_id option" where
  "getNode gr ido =
     (case ido of None \<Rightarrow> None
      | Some i \<Rightarrow> (case g_nodes gr i of None \<Rightarrow> None | Some _ \<Rightarrow> Some i))"

definition getNodeByIndex :: "app \<Rightarrow> int \<Rightarrow> node_id option" where
  "getNodeByIndex a idx = getNode (graph a) (nodeIndex a idx)"

text \<open>
  \<open>getNodeNeighbors(nodeID, true)\<close>: \<open>forEachLinkedNode\<close> does nothing for an id that
  names no stored node (in particular for \<open>undefined\<close>).
\<close>

definition getNodeNeighbors :: "app \<Rightarrow> node_id option \<Rightarrow> int list" where
  "getNodeNeighbors a ido =
     (case getNode (graph a) ido of
        None \<Rightarrow> []
      | Some i \<Rightarrow> g_linked (graph a) i)"

subsection \<open>Hover\<close>

text \<open>\<open>setHoverNeighbors(index = null)\<close>; \<open>None\<close> is the default \<open>null\<close>.\<close>

definition setHoverNeighbors :: "int option \<Rightarrow> regl_graph \<Rightarrow> regl_graph" where
  "setHoverNeighbors index g =
     emit (Assigned ''state.hoverNeighbors'')
       (g\<lparr>rg_state := (rg_state g)\<lparr>hoverNeighbors :=
            (case index of
               Some i \<Rightarrow> getNodeNeighbors (rg_app g) (nodeIndex (rg_app g) i)
             | None \<Rightarrow> [])\<rparr>\<rparr>)"

definition hoveredNodeWatcher :: "int \<Rightarrow> int \<Rightarrow> regl_graph \<Rightarrow> regl_graph" where
  "hoveredNodeWatcher v oldValue g =
     (if v = - 1 \<and> oldValue \<noteq> - 1
      then raiseEvent (NodeOut (getNodeByIndex (rg_app g) oldValue)) g
      else raiseEvent (NodeOver (getNodeByIndex (rg_app g) v)) g)"

text \<open>
  \<open>this.set('state.hoveredNode', value)\<close>: nothing happens when the value is the
  old one; otherwise the field is written and the watcher registered by \<open>init\<close> runs.
\<close>

definition set_hoveredNode :: "int \<Rightarrow> regl_graph \<Rightarrow> regl_graph" where
  "set_hoveredNode v g =
     (let oldValue = hoveredNode (rg_state g) in
      if oldValue = v then g
      else hoveredNodeWatcher v oldValue
             (emit (Assigned ''state.hoveredNode'')
                (g\<lparr>rg_state := (rg_state g)\<lparr>hoveredNode := v\<rparr>\<rparr>)))"

text \<open>\<open>setHoveredNode(idx = -1)\<close>; a call without argument passes \<open>-1\<close>.\<close>

definition setHoveredNode :: "int \<Rightarrow> regl_graph \<Rightarrow> regl_graph" where
  "setHoveredNode idx g =
     (if hoveredNode (rg_state g) \<noteq> idx
      then render (setHoverNeighbors (Some idx) (set_hoveredNode idx g))
      else setHoverNeighbors None g)"

subsection \<open>Selection and highlight\<close>

definition setSelectedNeighbors :: "int option \<Rightarrow> regl_graph \<Rightarrow> regl_graph" where
  "setSelectedNeighbors index g =
     emit (Assigned ''state.selectedNeighbors'')
       (g\<lparr>rg_state := (rg_state g)\<lparr>selectedNeighbors :=
            (case index of
               Some i \<Rightarrow> getNodeNeighbors (rg_app g) (nodeIndex (rg_app g) i)
             | None \<Rightarrow> [])\<rparr>\<rparr>)"

definition setSelectedNode :: "int \<Rightarrow> regl_graph \<Rightarrow> regl_graph" where
  "setSelectedNode idx g =
     (if selectedNode (rg_state g) \<noteq> idx
      then (let g1 = emit (Assigned ''state.selectedNode'')
                       (g\<lparr>rg_state := (rg_state g)\<lparr>selectedNode := idx\<rparr>\<rparr>);
                g2 = (if idx \<noteq> - 1
                      then (let node = getNodeByIndex (rg_app g1) idx
                            in raiseEvent (NodeSelect node) (setSelectedNeighbors (Some idx) g1))
                      else setSelectedNeighbors None g1)
            in render g2)
      else g)"

text \<open>
  \<open>highlight(nodesIds = null)\<close>. \<open>graph.getNode(id).data.index\<close> throws a TypeError
  for an id that names no node; the exception leaves the state as it was.
\<close>

fun resolveIds :: "ngraph \<Rightarrow> node_id list \<Rightarrow> error + int list" where
  "resolveIds gr [] = Inr []"
| "resolveIds gr (i # ids) =
     (case g_nodes gr i of
        None \<Rightarrow> Inl TypeError
      | Some ix \<Rightarrow> (case resolveIds gr ids of Inl e \<Rightarrow> Inl e | Inr ixs \<Rightarrow> Inr (ix # ixs)))"

definition highlight :: "node_id list option \<Rightarrow> regl_graph \<Rightarrow> error + regl_graph" where
  "highlight nodesIds g =
     (case nodesIds of
        Some ids \<Rightarrow>
          (case resolveIds (graph (rg_app g)) ids of
             Inl e \<Rightarrow> Inl e
           | Inr nodesIndexes \<Rightarrow>
               Inr (render (setSelectedNode (- 1)
                      (g\<lparr>rg_state := (rg_state g)\<lparr>highlightedNodes := nodesIndexes\<rparr>\<rparr>))))
      | None \<Rightarrow> Inr (render (g\<lparr>rg_state := (rg_state g)\<lparr>highlightedNodes := []\<rparr>\<rparr>)))"

subsection \<open>Screen to world, and picking\<close>

definition getNdcX :: "app \<Rightarrow> real \<Rightarrow> real" where
  "getNdcX a x = - 1 + (x / width a) * 2"

definition getNdcY :: "app \<Rightarrow> real \<Rightarrow> real" where
  "getNdcY a y = 1 + (y / height a) * (- 2)"

definition getMouseGlPos :: "regl_graph \<Rightarrow> real \<times> real" where
  "getMouseGlPos g =
     (getNdcX (rg_app g) (fst (mousePosition (rg_state g))),
      getNdcY (rg_app g) (snd (mousePosition (rg_state g))))"

text \<open>
  \<open>getScatterGlPos(pos)\<close>: \<open>pos ?? this.getMouseGlPos()\<close>, the inverse of
  \<open>projection * transform\<close> (the identity when \<open>mat3.invert\<close> returns \<open>null\<close>) applied
  to the homogeneous point, and the first two components of the result.
\<close>

definition getScatterGlPos :: "(real \<times> real) option \<Rightarrow> regl_graph \<Rightarrow> real \<times> real" where
  "getScatterGlPos pos g =
     (let (xGl, yGl) = (case pos of Some p \<Rightarrow> p | None \<Rightarrow> getMouseGlPos g);
          v = (xGl, yGl, 1);
          mvp = (case mat3_invert (mat3_multiply (projection (rg_state g)) (transform (rg_state g))) of
                   Some m \<Rightarrow> m
                 | None \<Rightarrow> Mat3 1 0 0 0 1 0 0 0 1);
          (x, y, z) = vec3_transformMat3 v mvp
      in (x, y))"

text \<open>
  The same function with its steps kept apart and \<open>null\<close> as a value (\<open>None\<close>):
  \<open>vec3.transformMat3(out, a, m)\<close> reads \<open>m[0]\<close>, which throws a TypeError when \<open>m\<close> is
  \<open>null\<close>; \<open>mvp\<close> is what \<open>mat3.invert\<close> returned, replaced by the identity when it is
  falsy.
\<close>

definition transformMat3_null :: "real \<times> real \<times> real \<Rightarrow> mat3 option \<Rightarrow> error + real \<times> real \<times> real" where
  "transformMat3_null a m = (case m of None \<Rightarrow> Inl TypeError | Some m' \<Rightarrow> Inr (vec3_transformMat3 a m'))"

definition getScatterGlPos_steps :: "(real \<times> real) option \<Rightarrow> regl_graph \<Rightarrow> error + real \<times> real" where
  "getScatterGlPos_steps pos g =
     (let (xGl, yGl) = (case pos of Some p \<Rightarrow> p | None \<Rightarrow> getMouseGlPos g);
          v = (xGl, yGl, 1);
          mvp = mat3_invert (mat3_multiply (projection (rg_state g)) (transform (rg_state g)));
          mvp = (if mvp = None then Some (Mat3 1 0 0 0 1 0 0 0 1) else mvp)
      in case transformMat3_null v mvp of
           Inl e \<Rightarrow> Inl e
         | Inr (x, y, z) \<Rightarrow> Inr (x, y))"

definition distance :: "real \<Rightarrow> real \<Rightarrow> real \<Rightarrow> real \<Rightarrow> real" where
  "distance x1 y1 x2 y2 = sqrt ((x1 - x2)\<^sup>2 + (y1 - y2)\<^sup>2)"

definition maxNumber :: "real \<Rightarrow> real \<Rightarrow> real" where
  "maxNumber a b = (if a > b then a else b)"

definition minNumber :: "real \<Rightarrow> real \<Rightarrow> real" where
  "minNumber a b = (if a < b then a else b)"

text \<open>The local \<open>scaledPointSize\<close> of \<open>raycast\<close>, with \<open>pointSize = 1000\<close> and \<open>scaling = 1\<close>.\<close>

definition scaledPointSize :: "regl_graph \<Rightarrow> real" where
  "scaledPointSize g =
     (let pointSize = 1000; scaling = 1 in
      5 * pointSize * (minNumber 1 scaling + log 2 (maxNumber 1 scaling))
        * devicePixelRatio (rg_app g))"

text \<open>
  The \<open>forEach\<close> over the candidates, with the pair \<open>(minDist, closestPoint)\<close> as loop
  state (\<open>None\<close> is \<open>undefined\<close>). Destructuring \<open>searchIndex.points[idx]\<close> throws a
  TypeError for an index that names no point.
\<close>

fun closest :: "(real \<times> real \<times> real) list \<Rightarrow> real \<Rightarrow> real \<Rightarrow> nat list
                  \<Rightarrow> real \<times> nat option \<Rightarrow> error + (real \<times> nat option)" where
  "closest pts mouseX mouseY [] acc = Inr acc"
| "closest pts mouseX mouseY (idx # rest) (minDist, closestPoint) =
     (if idx < length pts
      then (case pts ! idx of (x, y, _) \<Rightarrow>
              (let d = distance x y mouseX mouseY in
               if d < minDist
               then closest pts mouseX mouseY rest (d, Some idx)
               else closest pts mouseX mouseY rest (minDist, closestPoint)))
      else Inl TypeError)"

definition pointsInBBox :: "regl_graph \<Rightarrow> nat list" where
  "pointsInBBox g =
     (let (mouseX, mouseY) = getScatterGlPos None g;
          xNormalizedScaledPointSize = scaledPointSize g / width (rg_app g);
          yNormalizedScaledPointSize = scaledPointSize g / height (rg_app g)
      in kd_range (searchIndex (rg_app g))
           (mouseX - xNormalizedScaledPointSize)
           (mouseY - yNormalizedScaledPointSize)
           (mouseX + xNormalizedScaledPointSize)
           (mouseY + yNormalizedScaledPointSize))"

definition raycast :: "regl_graph \<Rightarrow> error + nat option" where
  "raycast g =
     (let (mouseX, mouseY) = getScatterGlPos None g in
      case closest (kd_points (searchIndex (rg_app g))) mouseX mouseY (pointsInBBox g)
             (scaledPointSize g, None) of
        Inl e \<Rightarrow> Inl e
      | Inr (minDist, closestPoint) \<Rightarrow> Inr closestPoint)"

subsection \<open>Pointer handlers\<close>

text \<open>JavaScript truthiness of the value \<open>raycast\<close> returns: \<open>undefined\<close> and \<open>0\<close> are falsy.\<close>

fun truthy_index :: "nat option \<Rightarrow> bool" where
  "truthy_index None = False"
| "truthy_index (Some n) = (n \<noteq> 0)"

text \<open>\<open>handleMouseMove\<close>; \<open>pos\<close> is what \<open>getRelativeMousePosition(event)\<close> returns.\<close>

definition handleMouseMove :: "real \<times> real \<Rightarrow> regl_graph \<Rightarrow> error + regl_graph" where
  "handleMouseMove pos g =
     (let g1 = g\<lparr>rg_state := (rg_state g)\<lparr>mousePosition := pos\<rparr>\<rparr> in
      if \<not> mouseDown (rg_state g1)
      then (case raycast g1 of
              Inl e \<Rightarrow> Inl e
            | Inr closestPoint \<Rightarrow>
                if truthy_index closestPoint
                then (let idx = int (the closestPoint);
                          node = getNodeByIndex (rg_app g1) idx
                      in Inr (emit (TooltipShow node)
                                (setCursorStyle ''pointer'' (setHoveredNode idx g1))))
                else Inr (emit TooltipHide
                            (setCursorStyle ''default'' (setHoveredNode (- 1) g1))))
      else Inr g1)"

definition handleClick :: "regl_graph \<Rightarrow> error + regl_graph" where
  "handleClick g =
     (case raycast g of
        Inl e \<Rightarrow> Inl e
      | Inr closestPoint \<Rightarrow>
          (case highlight None g of
             Inl e \<Rightarrow> Inl e
           | Inr g1 \<Rightarrow>
               if truthy_index closestPoint
               then (let idx = int (the closestPoint);
                         g2 = setSelectedNode idx g1;
                         node = getNodeByIndex (rg_app g2) idx
                     in Inr (raiseEvent (Click node) g2))
               else Inr (raiseEvent (Click None) (setSelectedNode (- 1) g1))))"

definition handleMouseDown :: "regl_graph \<Rightarrow> regl_graph" where
  "handleMouseDown g = g\<lparr>rg_state := (rg_state g)\<lparr>mouseDown := True\<rparr>\<rparr>"

definition handleMouseUp :: "regl_graph \<Rightarrow> regl_graph" where
  "handleMouseUp g =
     render (g\<lparr>rg_state := (rg_state g)\<lparr>mouseDown := False, inAnimation := False\<rparr>\<rparr>)"

definition updateTransform :: "real \<Rightarrow> real \<Rightarrow> real \<Rightarrow> regl_graph \<Rightarrow> regl_graph" where
  "updateTransform x y scale g =
     g\<lparr>rg_state := (rg_state g)
        \<lparr>transform := mat3_translate (mat3_scale (mat3_translate mat3_create (x, y)) (scale, scale)) (0, 0),
         projection := mat3_projection (width (rg_app g)) (height (rg_app g))\<rparr>\<rparr>"

definition handleZoom :: "real \<Rightarrow> real \<Rightarrow> real \<Rightarrow> regl_graph \<Rightarrow> regl_graph" where
  "handleZoom x y k g =
     (let g1 = raiseEvent (Zoom x y k) (render (updateTransform x y k g)) in
      if mouseDown (rg_state g1) then setCursorStyle ''move'' g1 else g1)"


subsection \<open>Operations on a running instance\<close>

text \<open>The instance the constructor leaves behind: \<open>this.state\<close> after \<open>init\<close>, and an empty trace.\<close>

definition initial :: "app \<Rightarrow> regl_graph" where
  "initial a =
     \<lparr>rg_app = a,
      rg_state = \<lparr>transform = mat3_translate mat3_create (0, 0),
                  projection = mat3_projection (width a) (height a),
                  mousePosition = (0, 0), mouseDown = False,
                  hoveredNode = - 1, hoverNeighbors = [],
                  selectedNode = - 1, selectedNeighbors = [],
                  highlightedNodes = [], inAnimation = False\<rparr>,
      trace = []\<rparr>"

text \<open>
  The calls that reach a running instance: the pointer and zoom handlers bound by
  \<open>init\<close>, and \<open>highlight\<close>. \<open>apply_op\<close> is the instance left behind by one call, also
  when the call throws (a handler that throws has written at most the mouse position).
\<close>

datatype op =
    MouseMove "real \<times> real"
  | MouseClick
  | Highlight "node_id list option"
  | MouseDown
  | MouseUp
  | ZoomTo real real real

fun apply_op :: "op \<Rightarrow> regl_graph \<Rightarrow> regl_graph" where
  "apply_op (MouseMove pos) g =
     (case handleMouseMove pos g of
        Inr g' \<Rightarrow> g'
      | Inl e \<Rightarrow> g\<lparr>rg_state := (rg_state g)\<lparr>mousePosition := pos\<rparr>\<rparr>)"
| "apply_op MouseClick g = (case handleClick g of Inr g' \<Rightarrow> g' | Inl e \<Rightarrow> g)"
| "apply_op (Highlight ids) g = (case highlight ids g of Inr g' \<Rightarrow> g' | Inl e \<Rightarrow> g)"
| "apply_op MouseDown g = handleMouseDown g"
| "apply_op MouseUp g = handleMouseUp g"
| "apply_op (ZoomTo x y k) g = handleZoom x y k g"

inductive reachable :: "app \<Rightarrow> regl_graph \<Rightarrow> bool" for a :: app where
  start: "reachable a (initial a)"
| step: "reachable a g \<Longrightarrow> reachable a (apply_op opn g)"

subsection \<open>Properties stated about the interaction state\<close>





text \<open>The neighbour list that \<open>setHoverNeighbors(idx)\<close> and \<open>setSelectedNeighbors(idx)\<close> store.\<close>

definition neighborsOf :: "app \<Rightarrow> int \<Rightarrow> int list" where
  "neighborsOf a idx = getNodeNeighbors a (nodeIndex a idx)"

definition hover_fresh :: "regl_graph \<Rightarrow> bool" where
  "hover_fresh g =
     (hoverNeighbors (rg_state g) =
        (if hoveredNode (rg_state g) = - 1 then []
         else neighborsOf (rg_app g) (hoveredNode (rg_state g))))"

definition select_fresh :: "regl_graph \<Rightarrow> bool" where
  "select_fresh g =
     (selectedNeighbors (rg_state g) =
        (if selectedNode (rg_state g) = - 1 then []
         else neighborsOf (rg_app g) (selectedNode (rg_state g))))"

definition exclusive :: "regl_graph \<Rightarrow> bool" where
  "exclusive g = (selectedNode (rg_state g) = - 1 \<or> highlightedNodes (rg_state g) = [])"

subsection \<open>Properties stated about picking\<close>

text \<open>Candidate \<open>i\<close> lies at the cursor's world position.\<close>

definition at_cursor :: "regl_graph \<Rightarrow> nat \<Rightarrow> bool" where
  "at_cursor g i =
     (case kd_points (searchIndex (rg_app g)) ! i of
        (x, y, _) \<Rightarrow> (x, y) = getScatterGlPos None g)"

text \<open>The distance from candidate \<open>i\<close> to the cursor's world position.\<close>

definition cursor_distance :: "regl_graph \<Rightarrow> nat \<Rightarrow> real" where
  "cursor_distance g i =
     (case kd_points (searchIndex (rg_app g)) ! i of
        (x, y, _) \<Rightarrow> (case getScatterGlPos None g of (mouseX, mouseY) \<Rightarrow> distance x y mouseX mouseY))"

text \<open>
  The radius formula as the specification words it, with the zoom level as a parameter
  and \<open>base = 5 * 1000\<close>; the radius \<open>raycast\<close> computes is \<open>scaledPointSize\<close>.
\<close>

definition spec_radius :: "real \<Rightarrow> real \<Rightarrow> real" where
  "spec_radius zoom dpr = 5 * 1000 * (min 1 zoom + log 2 (max 1 zoom)) * dpr"

subsection \<open>A small instance\<close>

text \<open>
  Three nodes on a canvas of 2 by 2 pixels, where the world position of the cursor is
  its pixel position; nodes 1 and 2 share the position \<open>(4, 5)\<close>. The index is a
  reference index: \<open>range\<close> by linear scan, answering in index order (KDBush answers
  the same set of indices; the order of its answer is not part of its contract).
\<close>

definition KDBush :: "(real \<times> real \<times> real) list \<Rightarrow> kdbush" where
  "KDBush pts =
     \<lparr>kd_points = pts,
      kd_range = (\<lambda>minX minY maxX maxY.
         filter (\<lambda>i. case pts ! i of (x, y, _) \<Rightarrow> minX \<le> x \<and> x \<le> maxX \<and> minY \<le> y \<and> y \<le> maxY)
           [0 ..< length pts])\<rparr>"

definition example_app :: app where
  "example_app =
     \<lparr>width = 2, height = 2, devicePixelRatio = 1,
      nodeIndex = [0 \<mapsto> ''a'', 1 \<mapsto> ''b'', 2 \<mapsto> ''c''],
      graph = \<lparr>g_nodes = [''a'' \<mapsto> 0, ''b'' \<mapsto> 1, ''c'' \<mapsto> 2],
               g_linked = (\<lambda>i. if i = ''a'' then [1] else if i = ''b'' then [0, 2]
                                else if i = ''c'' then [1] else [])\<rparr>,
      searchIndex = KDBush [(1, 1, 0), (4, 5, 1), (4, 5, 2)]\<rparr>"

definition example_at :: "real \<times> real \<Rightarrow> regl_graph" where
  "example_at pos = (initial example_app)\<lparr>rg_state := (rg_state (initial example_app))\<lparr>mousePosition := pos\<rparr>\<rparr>"

definition hovering :: regl_graph where
  "hovering = apply_op (MouseMove (4, 5)) (initial example_app)"

definition selecting :: regl_graph where
  "selecting = apply_op MouseClick hovering"

definition highlighting :: regl_graph where
  "highlighting = apply_op (Highlight (Some [''a'', ''c''])) selecting"

definition zoomed :: regl_graph where
  "zoomed = handleZoom 0 0 4 (initial example_app)"

definition collapsed :: regl_graph where
  "collapsed = handleZoom 0 0 0 (example_at (1, 2))"

text \<open>
  A canvas of 500 by 500 pixels with two nodes at the given render positions, zoomed to
  scale 0 with the cursor at the centre of the canvas.
\<close>

definition corner_app :: "(real \<times> real \<times> real) list \<Rightarrow> app" where
  "corner_app pts =
     \<lparr>width = 500, height = 500, devicePixelRatio = 1,
      nodeIndex = [0 \<mapsto> ''a'', 1 \<mapsto> ''b''],
      graph = \<lparr>g_nodes = [''a'' \<mapsto> 0, ''b'' \<mapsto> 1],
               g_linked = (\<lambda>i. if i = ''a'' then [1] else if i = ''b'' then [0] else [])\<rparr>,
      searchIndex = KDBush pts\<rparr>"

definition squeezed :: "(real \<times> real \<times> real) list \<Rightarrow> regl_graph" where
  "squeezed pts =
     (let g = handleZoom 0 0 0 (initial (corner_app pts))
      in g\<lparr>rg_state := (rg_state g)\<lparr>mousePosition := (250, 250)\<rparr>\<rparr>)"

subsection \<open>JavaScript number values in the loader\<close>

text \<open>
  The values the loader computes with: \<open>undefined\<close>, a finite number, the two
  infinities and \<open>NaN\<close>. Arithmetic follows IEEE 754 on these five kinds; rounding
  of finite results and the sign of zero are not modelled (a zero divisor counts as
  \<open>+0\<close>).
\<close>

datatype jsv = Undefined | Num real | PInf | NInf | NaN

text \<open>\<open>+x\<close>: \<open>undefined\<close> becomes \<open>NaN\<close>.\<close>

fun toNumber :: "jsv \<Rightarrow> jsv" where
  "toNumber Undefined = NaN"
| "toNumber v = v"

fun truthy :: "jsv \<Rightarrow> bool" where
  "truthy Undefined = False"
| "truthy NaN = False"
| "truthy (Num r) = (r \<noteq> 0)"
| "truthy PInf = True"
| "truthy NInf = True"

fun js_neg :: "jsv \<Rightarrow> jsv" where
  "js_neg (Num r) = Num (- r)"
| "js_neg PInf = NInf"
| "js_neg NInf = PInf"
| "js_neg v = NaN"

fun add_num :: "jsv \<Rightarrow> jsv \<Rightarrow> jsv" where
  "add_num (Num a) (Num b) = Num (a + b)"
| "add_num NaN _ = NaN"
| "add_num _ NaN = NaN"
| "add_num Undefined _ = NaN"
| "add_num _ Undefined = NaN"
| "add_num PInf NInf = NaN"
| "add_num NInf PInf = NaN"
| "add_num PInf _ = PInf"
| "add_num _ PInf = PInf"
| "add_num NInf _ = NInf"
| "add_num _ NInf = NInf"

definition js_add :: "jsv \<Rightarrow> jsv \<Rightarrow> jsv" where
  "js_add a b = add_num (toNumber a) (toNumber b)"

definition js_sub :: "jsv \<Rightarrow> jsv \<Rightarrow> jsv" where
  "js_sub a b = add_num (toNumber a) (js_neg (toNumber b))"

text \<open>The sign of a value that is not \<open>NaN\<close>: \<open>-1\<close>, \<open>0\<close> or \<open>1\<close>.\<close>

fun js_sign :: "jsv \<Rightarrow> int" where
  "js_sign (Num r) = (if r < 0 then - 1 else if r = 0 then 0 else 1)"
| "js_sign PInf = 1"
| "js_sign NInf = - 1"
| "js_sign v = 0"

fun is_inf :: "jsv \<Rightarrow> bool" where
  "is_inf PInf = True"
| "is_inf NInf = True"
| "is_inf v = False"

fun isNaN :: "jsv \<Rightarrow> bool" where
  "isNaN NaN = True"
| "isNaN Undefined = True"
| "isNaN v = False"

definition signed_inf :: "int \<Rightarrow> jsv" where
  "signed_inf s = (if s < 0 then NInf else PInf)"

fun mul_num :: "jsv \<Rightarrow> jsv \<Rightarrow> jsv" where
  "mul_num (Num a) (Num b) = Num (a * b)"
| "mul_num a b =
     (if isNaN a \<or> isNaN b then NaN
      else if js_sign a = 0 \<or> js_sign b = 0 then NaN
      else signed_inf (js_sign a * js_sign b))"

definition js_mul :: "jsv \<Rightarrow> jsv \<Rightarrow> jsv" where
  "js_mul a b = mul_num (toNumber a) (toNumber b)"

fun div_num :: "jsv \<Rightarrow> jsv \<Rightarrow> jsv" where
  "div_num (Num a) (Num b) =
     (if b = 0 then (if a = 0 then NaN else if a < 0 then NInf else PInf) else Num (a / b))"
| "div_num a b =
     (if isNaN a \<or> isNaN b then NaN
      else if is_inf a \<and> is_inf b then NaN
      else if is_inf b then Num 0
      else signed_inf (js_sign a * (if js_sign b < 0 then - 1 else 1)))"

definition js_div :: "jsv \<Rightarrow> jsv \<Rightarrow> jsv" where
  "js_div a b = div_num (toNumber a) (toNumber b)"

text \<open>\<open>a < b\<close> on numbers: false as soon as one side is \<open>NaN\<close>.\<close>

fun lt_num :: "jsv \<Rightarrow> jsv \<Rightarrow> bool" where
  "lt_num (Num a) (Num b) = (a < b)"
| "lt_num NInf (Num b) = True"
| "lt_num NInf PInf = True"
| "lt_num (Num a) PInf = True"
| "lt_num a b = False"

definition js_lt :: "jsv \<Rightarrow> jsv \<Rightarrow> bool" where
  "js_lt a b = lt_num (toNumber a) (toNumber b)"

definition js_gt :: "jsv \<Rightarrow> jsv \<Rightarrow> bool" where
  "js_gt a b = js_lt b a"

text \<open>\<open>a >= b\<close> on numbers.\<close>

definition js_ge :: "jsv \<Rightarrow> jsv \<Rightarrow> bool" where
  "js_ge a b = (\<not> isNaN a \<and> \<not> isNaN b \<and> \<not> js_lt a b)"

text \<open>\<open>a === b\<close>: \<open>NaN\<close> equals nothing, \<open>undefined\<close> equals \<open>undefined\<close>.\<close>

definition js_seq :: "jsv \<Rightarrow> jsv \<Rightarrow> bool" where
  "js_seq a b = (a = b \<and> a \<noteq> NaN)"

fun Math_ceil :: "jsv \<Rightarrow> jsv" where
  "Math_ceil (Num r) = Num (of_int \<lceil>r\<rceil>)"
| "Math_ceil v = toNumber v"

fun Math_round :: "jsv \<Rightarrow> jsv" where
  "Math_round (Num r) = Num (of_int \<lfloor>r + 1 / 2\<rfloor>)"
| "Math_round v = toNumber v"

definition Math_min :: "jsv \<Rightarrow> jsv \<Rightarrow> jsv" where
  "Math_min a b =
     (if isNaN a \<or> isNaN b then NaN else if js_lt b a then b else a)"

subsection \<open>d3: \<open>extent\<close> and \<open>scaleLinear\<close>\<close>

text \<open>
  \<open>d3.extent(values)\<close>: minimum and maximum of the values that are neither
  \<open>undefined\<close> nor \<open>NaN\<close>; \<open>[undefined, undefined]\<close> when there is none.
\<close>

fun extent_step :: "jsv \<times> jsv \<Rightarrow> jsv \<Rightarrow> jsv \<times> jsv" where
  "extent_step (mn, mx) v =
     (if v = Undefined then (mn, mx)
      else if mn = Undefined then (if js_ge v v then (v, v) else (mn, mx))
      else (if js_gt mn v then v else mn, if js_lt mx v then v else mx))"

definition d3Extent :: "jsv list \<Rightarrow> jsv \<times> jsv" where
  "d3Extent values = foldl extent_step (Undefined, Undefined) values"

text \<open>
  A linear scale with a two-point domain and range. \<open>sc_round\<close> is set by \<open>rangeRound\<close>
  (interpolation followed by \<open>Math.round\<close>). \<open>domain\<close> coerces its entries to numbers.
\<close>

record scale =
  sc_domain :: "jsv \<times> jsv"
  sc_range :: "jsv \<times> jsv"
  sc_round :: bool

definition scaleLinear :: "jsv \<times> jsv \<Rightarrow> jsv \<times> jsv \<Rightarrow> scale" where
  "scaleLinear d r = \<lparr>sc_domain = (toNumber (fst d), toNumber (snd d)), sc_range = r, sc_round = False\<rparr>"

definition scaleLinearRound :: "jsv \<times> jsv \<Rightarrow> jsv \<times> jsv \<Rightarrow> scale" where
  "scaleLinearRound d r = \<lparr>sc_domain = (toNumber (fst d), toNumber (snd d)), sc_range = r, sc_round = True\<rparr>"

text \<open>
  \<open>normalize(a, b)\<close> of d3-scale: \<open>(x - a) / (b - a)\<close> when \<open>b - a\<close> is truthy, otherwise
  the constant \<open>0.5\<close> (\<open>NaN\<close> when \<open>b - a\<close> is \<open>NaN\<close>): a degenerate domain never divides.
\<close>

definition normalize :: "jsv \<Rightarrow> jsv \<Rightarrow> jsv \<Rightarrow> jsv" where
  "normalize a b x =
     (let b' = js_sub b a in
      if truthy b' then js_div (js_sub x a) b'
      else if isNaN b' then NaN else Num (1 / 2))"

definition interpolate :: "bool \<Rightarrow> jsv \<Rightarrow> jsv \<Rightarrow> jsv \<Rightarrow> jsv" where
  "interpolate rnd a b t =
     (let v = js_add (js_mul a (js_sub (Num 1) t)) (js_mul b t) in
      if rnd then Math_round v else v)"

text \<open>Applying the scale; \<open>undefined\<close> and \<open>NaN\<close> inputs give the scale's \<open>unknown\<close> value, \<open>undefined\<close>.\<close>

definition scale_apply :: "scale \<Rightarrow> jsv \<Rightarrow> jsv" where
  "scale_apply sc x =
     (if isNaN x then Undefined
      else (case sc_domain sc of (d0, d1) \<Rightarrow> (case sc_range sc of (r0, r1) \<Rightarrow>
              if js_lt d1 d0 then interpolate (sc_round sc) r1 r0 (normalize d1 d0 x)
              else interpolate (sc_round sc) r0 r1 (normalize d0 d1 x))))"

subsection \<open>Input data, settings and what \<open>loadData\<close> builds\<close>

record position_obj =
  pos_x :: jsv
  pos_y :: jsv

text \<open>
  The values an object stored in the graph holds under its keys: a number or
  \<open>undefined\<close>, a string, or a render position.
\<close>

datatype dval = Prim jsv | Str string | Triple "jsv \<times> jsv \<times> jsv"

type_synonym obj = "string \<rightharpoonup> dval"

text \<open>
  A node of the input: an absent numeric property is \<open>Undefined\<close>, an absent
  \<open>position\<close> object, colour or \<open>attributes\<close> object is \<open>None\<close>.
\<close>

record node =
  node_id :: node_id
  node_label :: string
  node_x :: jsv
  node_y :: jsv
  node_position :: "position_obj option"
  node_size :: jsv
  node_color :: "string option"
  node_attributes :: "obj option"

text \<open>
  An edge of the input; an absent id or colour is \<open>None\<close>, an absent number \<open>Undefined\<close>.
  The edges considered carry no \<open>attributes\<close> object.
\<close>

record edge =
  edge_sourceID :: "node_id option"
  edge_source :: "node_id option"
  edge_targetID :: "node_id option"
  edge_target :: "node_id option"
  edge_size :: jsv
  edge_weight :: jsv
  edge_color :: "string option"

text \<open>The \<open>data\<close> argument; \<open>None\<close> is a property that \<open>data\<close> does not have.\<close>

record graph_data =
  data_nodes :: "node list option"
  data_edges :: "edge list option"

text \<open>The settings that reach the loader, with the constructor's defaults below.\<close>

record settings =
  graphMargin :: real
  showEdges :: bool
  nodesSizeRange :: "real \<times> real"
  edgesWeightRange :: "real \<times> real"
  defaultNodesOpacity :: real
  defaultEdgesColor :: string

definition default_settings :: settings where
  "default_settings =
     \<lparr>graphMargin = 50, showEdges = True, nodesSizeRange = (5, 30), edgesWeightRange = (1, 5),
      defaultNodesOpacity = 1, defaultEdgesColor = ''#FFFFFF''\<rparr>"

text \<open>The \<open>options\<close> argument; \<open>None\<close> is an option that was not given.\<close>

record options =
  opt_graphMargin :: "real option"
  opt_showEdges :: "bool option"
  opt_nodesSizeRange :: "(real \<times> real) option"
  opt_edgesWeightRange :: "(real \<times> real) option"
  opt_defaultNodesOpacity :: "real option"
  opt_defaultEdgesColor :: "string option"

definition no_options :: options where
  "no_options =
     \<lparr>opt_graphMargin = None, opt_showEdges = None, opt_nodesSizeRange = None,
      opt_edgesWeightRange = None, opt_defaultNodesOpacity = None, opt_defaultEdgesColor = None\<rparr>"

text \<open>\<open>{...this.settings, ...options}\<close>\<close>

definition merge_settings :: "settings \<Rightarrow> options \<Rightarrow> settings" where
  "merge_settings s opts =
     \<lparr>graphMargin = (case opt_graphMargin opts of Some v \<Rightarrow> v | None \<Rightarrow> graphMargin s),
      showEdges = (case opt_showEdges opts of Some v \<Rightarrow> v | None \<Rightarrow> showEdges s),
      nodesSizeRange = (case opt_nodesSizeRange opts of Some v \<Rightarrow> v | None \<Rightarrow> nodesSizeRange s),
      edgesWeightRange = (case opt_edgesWeightRange opts of Some v \<Rightarrow> v | None \<Rightarrow> edgesWeightRange s),
      defaultNodesOpacity = (case opt_defaultNodesOpacity opts of Some v \<Rightarrow> v | None \<Rightarrow> defaultNodesOpacity s),
      defaultEdgesColor = (case opt_defaultEdgesColor opts of Some v \<Rightarrow> v | None \<Rightarrow> defaultEdgesColor s)\<rparr>"

type_synonym vec3 = "jsv \<times> jsv \<times> jsv"

type_synonym vec4 = "jsv \<times> jsv \<times> jsv \<times> jsv"

text \<open>
  What \<open>graph.addNode\<close> stores is the object built in \<open>loadData\<close> (an \<open>obj\<close>); what
  \<open>graph.addLink\<close> stores for an edge:
\<close>

record link_data =
  l_from :: node_id
  l_to :: node_id
  l_weight :: jsv
  l_color :: string
  l_index :: nat

text \<open>
  \<open>this.matrices\<close>. \<open>edgesPositionsByWeight\<close> is a \<open>Map\<close>: keys in insertion order, a key
  looked up by value (\<open>NaN\<close> is found again as \<open>NaN\<close>).
\<close>

record matrices =
  nodesPositions :: "vec3 list"
  edgesPositionsByWeight :: "(jsv \<times> dval list) list"
  nodeColors :: "vec4 option list"
  sizes :: "jsv list"

record loaded =
  ld_nodes :: "node_id \<rightharpoonup> obj"      \<comment> \<open>the nodes of \<open>this.app.graph\<close>\<close>
  ld_links :: "link_data list"               \<comment> \<open>its links\<close>
  ld_nodeIndex :: "nat \<rightharpoonup> node_id"           \<comment> \<open>\<open>this.app.nodeIndex\<close>\<close>
  ld_matrices :: matrices

definition empty_loaded :: loaded where
  "empty_loaded =
     \<lparr>ld_nodes = Map.empty, ld_links = [], ld_nodeIndex = Map.empty,
      ld_matrices = \<lparr>nodesPositions = [], edgesPositionsByWeight = [], nodeColors = [], sizes = []\<rparr>\<rparr>"

record extents =
  ext_size :: "jsv \<times> jsv"
  ext_x :: "jsv \<times> jsv"
  ext_y :: "jsv \<times> jsv"
  ext_weight :: "jsv \<times> jsv"

record scales =
  scale_size :: scale
  scale_x :: scale
  scale_y :: scale
  scale_weight :: scale

subsection \<open>\<open>loadData\<close>\<close>

text \<open>\<open>node.x ? node.x : node.position.x\<close>, and the same for \<open>y\<close>.\<close>

definition nodeX :: "node \<Rightarrow> error + jsv" where
  "nodeX n =
     (if truthy (node_x n) then Inr (node_x n)
      else (case node_position n of None \<Rightarrow> Inl TypeError | Some p \<Rightarrow> Inr (pos_x p)))"

definition nodeY :: "node \<Rightarrow> error + jsv" where
  "nodeY n =
     (if truthy (node_y n) then Inr (node_y n)
      else (case node_position n of None \<Rightarrow> Inl TypeError | Some p \<Rightarrow> Inr (pos_y p)))"

text \<open>One step of an extent: \<open>if (v < e[0]) e[0] = v; if (v > e[1]) e[1] = v\<close>.\<close>

definition widen :: "jsv \<times> jsv \<Rightarrow> jsv \<Rightarrow> jsv \<times> jsv" where
  "widen e v = (if js_lt v (fst e) then v else fst e, if js_gt v (snd e) then v else snd e)"

text \<open>The weight extent, from the first edge's properties.\<close>

definition weightExtent :: "settings \<Rightarrow> edge list option \<Rightarrow> error + jsv \<times> jsv" where
  "weightExtent st edges =
     (if showEdges st
      then (case edges of
              None \<Rightarrow> Inl TypeError
            | Some [] \<Rightarrow> Inl TypeError
            | Some (e0 # es) \<Rightarrow>
                if edge_size e0 \<noteq> Undefined \<or> edge_weight e0 \<noteq> Undefined
                then (let weightName = (if truthy (edge_size e0) then edge_size else edge_weight)
                      in Inr (d3Extent (map weightName (e0 # es))))
                else Inr (Num 0, Num 1))
      else Inr (PInf, NInf))"

text \<open>The first \<open>nodes.forEach\<close>: the extents of size, x and y.\<close>

fun nodeExtents :: "node list \<Rightarrow> extents \<Rightarrow> error + extents" where
  "nodeExtents [] ex = Inr ex"
| "nodeExtents (n # ns) ex =
     (let ex1 = ex\<lparr>ext_size := widen (ext_size ex) (node_size n)\<rparr> in
      case nodeX n of
        Inl e \<Rightarrow> Inl e
      | Inr x \<Rightarrow>
          (let ex2 = ex1\<lparr>ext_x := widen (ext_x ex1) x\<rparr> in
           case nodeY n of
             Inl e \<Rightarrow> Inl e
           | Inr y \<Rightarrow> nodeExtents ns (ex2\<lparr>ext_y := widen (ext_y ex2) y\<rparr>)))"

definition layoutAspectRatio :: "settings \<Rightarrow> real \<Rightarrow> real \<Rightarrow> jsv \<times> jsv \<Rightarrow> jsv \<times> jsv \<Rightarrow> jsv \<times> jsv" where
  "layoutAspectRatio st w h xExtent yExtent =
     (let graphMargin = graphMargin st;
          factorX = js_div (Num (w - graphMargin * 2)) (Math_ceil (js_sub (snd xExtent) (fst xExtent)));
          factorY = js_div (Num (h - graphMargin * 2)) (Math_ceil (js_sub (snd yExtent) (fst yExtent)));
          factor = Math_min factorX factorY;
          marginXIncrease =
            js_div (js_sub (Num (w - graphMargin * 2))
                      (js_mul factor (Math_ceil (js_sub (snd xExtent) (fst xExtent))))) (Num 2);
          marginYIncrease =
            js_div (js_sub (Num (h - graphMargin * 2))
                      (js_mul factor (Math_ceil (js_sub (snd yExtent) (fst yExtent))))) (Num 2)
      in (marginXIncrease, marginYIncrease))"

definition makeScales :: "settings \<Rightarrow> real \<Rightarrow> real \<Rightarrow> extents \<Rightarrow> scales" where
  "makeScales st w h ex =
     (case layoutAspectRatio st w h (ext_x ex) (ext_y ex) of (marginXIncrease, marginYIncrease) \<Rightarrow>
      \<lparr>scale_size = scaleLinear (ext_size ex)
                      (Num (fst (nodesSizeRange st)), Num (snd (nodesSizeRange st))),
       scale_x = scaleLinear (ext_x ex)
                   (js_add (Num (graphMargin st)) marginXIncrease,
                    js_sub (Num (w - graphMargin st)) marginXIncrease),
       scale_y = scaleLinear (ext_y ex)
                   (js_add (Num (graphMargin st)) marginYIncrease,
                    js_sub (Num (h - graphMargin st)) marginYIncrease),
       scale_weight = scaleLinearRound (ext_weight ex)
                        (if js_seq (fst (ext_weight ex)) (snd (ext_weight ex)) then (Num 1, Num 1)
                         else (Num (fst (edgesWeightRange st)), Num (snd (edgesWeightRange st))))\<rparr>)"

text \<open>
  \<open>node.color ? this.glslColor(node.color, defaultNodesOpacity) : [1, 1, 1, defaultNodesOpacity]\<close>.
  \<open>glslColor\<close> (the conversion of a CSS colour string, \<open>null\<close> for a string it does not
  recognise) is a parameter.
\<close>

definition nodeColor :: "settings \<Rightarrow> (string \<Rightarrow> real \<Rightarrow> vec4 option) \<Rightarrow> node \<Rightarrow> vec4 option" where
  "nodeColor st glslColor n =
     (case node_color n of
        Some c \<Rightarrow> (if c \<noteq> [] then glslColor c (defaultNodesOpacity st)
                   else Some (Num 1, Num 1, Num 1, Num (defaultNodesOpacity st)))
      | None \<Rightarrow> Some (Num 1, Num 1, Num 1, Num (defaultNodesOpacity st)))"

text \<open>
  The object handed to \<open>graph.addNode\<close>: the seven properties the loader computes,
  then the spread of \<open>node.attributes\<close>, whose keys overwrite properties of the same name.
\<close>

definition nodeData :: "node \<Rightarrow> jsv \<Rightarrow> jsv \<Rightarrow> nat \<Rightarrow> vec3 \<Rightarrow> jsv \<Rightarrow> obj" where
  "nodeData n x y i position nsize =
     [''color'' \<mapsto> (case node_color n of Some c \<Rightarrow> Str c | None \<Rightarrow> Prim Undefined),
      ''label'' \<mapsto> Str (node_label n),
      ''y'' \<mapsto> Prim y,
      ''x'' \<mapsto> Prim x,
      ''index'' \<mapsto> Prim (Num (real i)),
      ''position'' \<mapsto> Triple position,
      ''size'' \<mapsto> Prim nsize]
     ++ (case node_attributes n of Some a \<Rightarrow> a | None \<Rightarrow> Map.empty)"

text \<open>The second \<open>nodes.forEach\<close>, with the index \<open>i\<close> of the node.\<close>

fun loadNodes :: "settings \<Rightarrow> (string \<Rightarrow> real \<Rightarrow> vec4 option) \<Rightarrow> scales \<Rightarrow> nat \<Rightarrow> node list
                    \<Rightarrow> loaded \<Rightarrow> error + loaded" where
  "loadNodes st glslColor sc i [] ld = Inr ld"
| "loadNodes st glslColor sc i (n # ns) ld =
     (case nodeX n of
        Inl e \<Rightarrow> Inl e
      | Inr x \<Rightarrow>
          (case nodeY n of
             Inl e \<Rightarrow> Inl e
           | Inr y \<Rightarrow>
               (let position = (scale_apply (scale_x sc) x, scale_apply (scale_y sc) y, Num (real i));
                    size = scale_apply (scale_size sc) (node_size n);
                    m = ld_matrices ld
                in loadNodes st glslColor sc (Suc i) ns
                     (ld\<lparr>ld_nodes := (ld_nodes ld)(node_id n \<mapsto> nodeData n x y i position size),
                         ld_nodeIndex := (ld_nodeIndex ld)(i \<mapsto> node_id n),
                         ld_matrices := m
                           \<lparr>nodesPositions := nodesPositions m @ [position],
                            nodeColors := nodeColors m @ [nodeColor st glslColor n],
                            sizes := sizes m @ [size]\<rparr>\<rparr>))))"

text \<open>\<open>a || b\<close> on ids: the empty string is falsy.\<close>

definition or_id :: "node_id option \<Rightarrow> node_id option \<Rightarrow> node_id option" where
  "or_id a b = (case a of Some s \<Rightarrow> (if s \<noteq> [] then Some s else b) | None \<Rightarrow> b)"

text \<open>
  \<open>graph.getNode(id).data.position\<close> after \<open>addLink\<close>, for an id that is not
  \<open>undefined\<close>: \<open>addLink\<close> has created a node without data for an id that named no
  loaded node, and reading \<open>position\<close> of its data throws a TypeError. Otherwise the
  result is what the node's data holds under \<open>position\<close>.
\<close>

definition endPosition :: "loaded \<Rightarrow> node_id \<Rightarrow> error + dval" where
  "endPosition ld i =
     (case ld_nodes ld i of
        None \<Rightarrow> Inl TypeError
      | Some d \<Rightarrow> Inr (case d ''position'' of Some v \<Rightarrow> v | None \<Rightarrow> Prim Undefined))"

text \<open>Appending two positions to the bucket of a weight, creating the bucket when it is new.\<close>

fun pushBucket :: "jsv \<Rightarrow> dval list \<Rightarrow> (jsv \<times> dval list) list \<Rightarrow> (jsv \<times> dval list) list" where
  "pushBucket k ps [] = [(k, ps)]"
| "pushBucket k ps ((k', qs) # bs) =
     (if k' = k then (k', qs @ ps) # bs else (k', qs) # pushBucket k ps bs)"

text \<open>The line width of an edge: its \<open>size\<close>, else its \<open>weight\<close>, through the weight scale; else 1.\<close>

definition edgeWeight :: "scales \<Rightarrow> edge \<Rightarrow> jsv" where
  "edgeWeight sc e =
     (if edge_size e \<noteq> Undefined then scale_apply (scale_weight sc) (edge_size e)
      else if edge_weight e \<noteq> Undefined then scale_apply (scale_weight sc) (edge_weight e)
      else Num 1)"

text \<open>
  The \<open>edges.forEach\<close>. \<open>graph.addLink(fromId, toId, data)\<close> looks up or adds the node
  of each end before it stores the link, and \<open>addNode\<close> throws
  \<open>Error('Invalid node identifier')\<close> for an id that is \<open>undefined\<close>.
\<close>

fun loadEdges :: "settings \<Rightarrow> scales \<Rightarrow> nat \<Rightarrow> edge list \<Rightarrow> loaded \<Rightarrow> error + loaded" where
  "loadEdges st sc i [] ld = Inr ld"
| "loadEdges st sc i (e # es) ld =
     (let weight = edgeWeight sc e;
          color = (case edge_color e of Some c \<Rightarrow> c | None \<Rightarrow> defaultEdgesColor st)
      in case or_id (edge_sourceID e) (edge_source e) of
           None \<Rightarrow> Inl (Error ''Invalid node identifier'')
         | Some src \<Rightarrow>
             (case or_id (edge_targetID e) (edge_target e) of
                None \<Rightarrow> Inl (Error ''Invalid node identifier'')
              | Some tgt \<Rightarrow>
                  (let ld1 = ld\<lparr>ld_links := ld_links ld @
                          [\<lparr>l_from = src, l_to = tgt, l_weight = weight, l_color = color, l_index = i\<rparr>]\<rparr>
                   in case endPosition ld1 src of
                        Inl err \<Rightarrow> Inl err
                      | Inr sp \<Rightarrow>
                          (case endPosition ld1 tgt of
                             Inl err \<Rightarrow> Inl err
                           | Inr tp \<Rightarrow>
                               loadEdges st sc (Suc i) es
                                 (ld1\<lparr>ld_matrices := (ld_matrices ld1)
                                    \<lparr>edgesPositionsByWeight :=
                                       pushBucket weight [sp, tp]
                                         (edgesPositionsByWeight (ld_matrices ld1))\<rparr>\<rparr>)))))"

definition initial_extents :: "jsv \<times> jsv \<Rightarrow> extents" where
  "initial_extents w = \<lparr>ext_size = (PInf, NInf), ext_x = (PInf, NInf), ext_y = (PInf, NInf), ext_weight = w\<rparr>"

text \<open>The part of \<open>loadData\<close> up to the scales.\<close>

definition loadScales :: "settings \<Rightarrow> real \<Rightarrow> real \<Rightarrow> node list \<Rightarrow> edge list option \<Rightarrow> error + scales" where
  "loadScales st w h nodes edges =
     (case weightExtent st edges of
        Inl e \<Rightarrow> Inl e
      | Inr wext \<Rightarrow>
          (case nodeExtents nodes (initial_extents wext) of
             Inl e \<Rightarrow> Inl e
           | Inr ex \<Rightarrow> Inr (makeScales st w h ex)))"

definition loadData :: "settings \<Rightarrow> (string \<Rightarrow> real \<Rightarrow> vec4 option) \<Rightarrow> real \<Rightarrow> real
                          \<Rightarrow> node list \<Rightarrow> edge list option \<Rightarrow> error + loaded" where
  "loadData st glslColor w h nodes edges =
     (case loadScales st w h nodes edges of
        Inl e \<Rightarrow> Inl e
      | Inr sc \<Rightarrow>
          (case loadNodes st glslColor sc 0 nodes empty_loaded of
             Inl e \<Rightarrow> Inl e
           | Inr ld \<Rightarrow>
               if showEdges st
               then (case edges of None \<Rightarrow> Inl TypeError | Some es \<Rightarrow> loadEdges st sc 0 es ld)
               else Inr ld))"

subsection \<open>\<open>loadBuffers\<close>\<close>

text \<open>
  \<open>this.buffers\<close>: \<open>regl.buffer(array)\<close> is modelled by the array it is filled with.
  \<open>buf_nodes\<close> starts as \<open>null\<close>, \<open>buf_edges\<close> is a \<open>Map\<close> from a weight to a buffer.
\<close>

record buffers =
  buf_nodes :: "vec3 list option"
  buf_edges :: "(jsv \<times> dval list) list"

definition empty_buffers :: buffers where
  "empty_buffers = \<lparr>buf_nodes = None, buf_edges = []\<rparr>"

text \<open>\<open>Map.set(key, value)\<close> on the list of entries.\<close>

fun map_set :: "jsv \<Rightarrow> dval list \<Rightarrow> (jsv \<times> dval list) list \<Rightarrow> (jsv \<times> dval list) list" where
  "map_set k v [] = [(k, v)]"
| "map_set k v ((k', v') # bs) = (if k' = k then (k', v) # bs else (k', v') # map_set k v bs)"

text \<open>\<open>loadBuffers(type = null)\<close>; \<open>None\<close> is the default \<open>null\<close>.\<close>

definition loadBuffers :: "settings \<Rightarrow> string option \<Rightarrow> matrices \<Rightarrow> buffers \<Rightarrow> buffers" where
  "loadBuffers st type m b =
     (let b1 = (if type = Some ''nodes'' \<or> type = None
                then b\<lparr>buf_nodes := Some (nodesPositions m)\<rparr> else b)
      in if showEdges st \<and> (type = Some ''edges'' \<or> type = None)
         then b1\<lparr>buf_edges := foldl (\<lambda>acc (k, v). map_set k v acc) (buf_edges b1)
                                  (edgesPositionsByWeight m)\<rparr>
         else b1)"

subsection \<open>The constructor\<close>

text \<open>
  The container is the canvas size the browser reports for it (\<open>None\<close>: no container).
  The four checks throw an \<open>Error\<close> with a message (written here without accents);
  \<open>init\<close> then loads the data.
\<close>

record container =
  clientWidth :: real
  clientHeight :: real

definition construct :: "(string \<Rightarrow> real \<Rightarrow> vec4 option) \<Rightarrow> container option \<Rightarrow> graph_data option
                           \<Rightarrow> options \<Rightarrow> error + loaded" where
  "construct glslColor cont data opts =
     (case cont of
        None \<Rightarrow> Inl (Error ''Informe um elemento HTML como container para plotagem do grafo'')
      | Some c \<Rightarrow>
          (case data of
             None \<Rightarrow> Inl (Error ''Informe os dados para a rede'')
           | Some d \<Rightarrow>
               (case data_nodes d of
                  None \<Rightarrow> Inl (Error ''O objeto de dados da rede nao contem a propriedade nodes (nos)'')
                | Some nodes \<Rightarrow>
                    if (opt_showEdges opts = None \<or> opt_showEdges opts = Some True) \<and> data_edges d = None
                    then Inl (Error ''O objeto de dados da rede nao contem a propriedade edges (arestas)'')
                    else loadData (merge_settings default_settings opts) glslColor
                           (clientWidth c) (clientHeight c) nodes (data_edges d))))"

text \<open>
  A node whose coordinates the loader can read: \<open>x\<close> and \<open>y\<close> truthy, or a \<open>position\<close>
  object. (A node with \<open>x: 0\<close> or \<open>y: 0\<close> and no \<open>position\<close> object is not among them.)
\<close>

definition readable_node :: "node \<Rightarrow> bool" where
  "readable_node n =
     ((truthy (node_x n) \<or> node_position n \<noteq> None) \<and> (truthy (node_y n) \<or> node_position n \<noteq> None))"

text \<open>The coordinate the loader reads for such a node.\<close>

definition coordX :: "node \<Rightarrow> jsv" where
  "coordX n = (if truthy (node_x n) then node_x n
               else (case node_position n of Some p \<Rightarrow> pos_x p | None \<Rightarrow> Undefined))"

definition coordY :: "node \<Rightarrow> jsv" where
  "coordY n = (if truthy (node_y n) then node_y n
               else (case node_position n of Some p \<Rightarrow> pos_y p | None \<Rightarrow> Undefined))"

text \<open>The render position \<open>[x, y, index]\<close> of node \<open>n\<close> read at input position \<open>i\<close>.\<close>

definition placed :: "scales \<Rightarrow> nat \<Rightarrow> node \<Rightarrow> vec3" where
  "placed sc i n = (scale_apply (scale_x sc) (coordX n), scale_apply (scale_y sc) (coordY n), Num (real i))"

text \<open>Both ends of an edge name nodes of the set \<open>known\<close>.\<close>

definition ends_known :: "node_id set \<Rightarrow> edge \<Rightarrow> bool" where
  "ends_known known e =
     ((case or_id (edge_sourceID e) (edge_source e) of Some s \<Rightarrow> s \<in> known | None \<Rightarrow> False) \<and>
      (case or_id (edge_targetID e) (edge_target e) of Some t \<Rightarrow> t \<in> known | None \<Rightarrow> False))"

text \<open>What a load result shows of its \<open>sizes\<close>, node positions, link widths and bucket keys.\<close>

definition load_sizes :: "error + loaded \<Rightarrow> error + jsv list" where
  "load_sizes r = (case r of Inl e \<Rightarrow> Inl e | Inr ld \<Rightarrow> Inr (sizes (ld_matrices ld)))"

definition load_positions :: "error + loaded \<Rightarrow> error + vec3 list" where
  "load_positions r = (case r of Inl e \<Rightarrow> Inl e | Inr ld \<Rightarrow> Inr (nodesPositions (ld_matrices ld)))"

definition load_widths :: "error + loaded \<Rightarrow> error + jsv list" where
  "load_widths r = (case r of Inl e \<Rightarrow> Inl e | Inr ld \<Rightarrow> Inr (map l_weight (ld_links ld)))"

definition load_bucket_keys :: "error + loaded \<Rightarrow> error + jsv list" where
  "load_bucket_keys r =
     (case r of Inl e \<Rightarrow> Inl e | Inr ld \<Rightarrow> Inr (map fst (edgesPositionsByWeight (ld_matrices ld))))"

subsection \<open>Small inputs\<close>

definition example_glslColor :: "string \<Rightarrow> real \<Rightarrow> vec4 option" where
  "example_glslColor c opacity = Some (Num 1, Num 1, Num 1, Num opacity)"

definition example_container :: container where
  "example_container = \<lparr>clientWidth = 500, clientHeight = 500\<rparr>"

definition node_a :: node where
  "node_a = \<lparr>node_id = ''a'', node_label = ''A'', node_x = Num 10, node_y = Num 20,
             node_position = None, node_size = Num 1, node_color = None, node_attributes = None\<rparr>"

definition node_b :: node where
  "node_b = \<lparr>node_id = ''b'', node_label = ''B'', node_x = Num 110, node_y = Num 220,
             node_position = None, node_size = Num 3, node_color = None, node_attributes = None\<rparr>"

text \<open>A node without \<open>x\<close>, \<open>y\<close> and \<open>size\<close>, with a \<open>position\<close> object and attributes.\<close>

definition node_bare :: node where
  "node_bare = \<lparr>node_id = ''c'', node_label = ''C'', node_x = Undefined, node_y = Undefined,
                node_position = Some \<lparr>pos_x = Num 10, pos_y = Num 20\<rparr>, node_size = Undefined,
                node_color = None, node_attributes = Some [''size'' \<mapsto> Prim (Num 7), ''weight'' \<mapsto> Prim (Num 7)]\<rparr>"

text \<open>The two nodes of the specification's example scenario, \<open>{id: "a", x: 0, y: 0, size: 10}\<close> and \<open>{id: "b", x: 100, y: 0, size: 10}\<close>.\<close>

definition node_origin :: node where
  "node_origin = \<lparr>node_id = ''a'', node_label = ''A'', node_x = Num 0, node_y = Num 0,
                  node_position = None, node_size = Num 10, node_color = None, node_attributes = None\<rparr>"

definition node_far :: node where
  "node_far = \<lparr>node_id = ''b'', node_label = ''B'', node_x = Num 100, node_y = Num 0,
               node_position = None, node_size = Num 10, node_color = None, node_attributes = None\<rparr>"

definition edge_ab :: "jsv \<Rightarrow> jsv \<Rightarrow> edge" where
  "edge_ab sz wt = \<lparr>edge_sourceID = Some ''a'', edge_source = None, edge_targetID = Some ''b'',
                    edge_target = None, edge_size = sz, edge_weight = wt, edge_color = None\<rparr>"

text \<open>The weight scale of a load, as far as the scales were built.\<close>

definition load_weight_scale :: "error + scales \<Rightarrow> error + scale" where
  "load_weight_scale r = (case r of Inl e \<Rightarrow> Inl e | Inr sc \<Rightarrow> Inr (scale_weight sc))"

section \<open>Theorems\<close>

subsection \<open>Auxiliary facts about the setters\<close>

lemmas prims = emit_def raiseEvent_def render_def setCursorStyle_def

lemma prim_fields [simp]:
  "rg_state (emit e g) = rg_state g" "rg_app (emit e g) = rg_app g"
  "rg_state (raiseEvent ev g) = rg_state g" "rg_app (raiseEvent ev g) = rg_app g"
  "rg_state (render g) = rg_state g" "rg_app (render g) = rg_app g"
  "rg_state (setCursorStyle c g) = rg_state g" "rg_app (setCursorStyle c g) = rg_app g"
  by (simp_all add: prims)

lemma setHoveredNode_keeps [simp]:
  "selectedNode (rg_state (setHoveredNode i g)) = selectedNode (rg_state g)"
  "highlightedNodes (rg_state (setHoveredNode i g)) = highlightedNodes (rg_state g)"
  "selectedNeighbors (rg_state (setHoveredNode i g)) = selectedNeighbors (rg_state g)"
  "rg_app (setHoveredNode i g) = rg_app g"
  by (simp_all add: setHoveredNode_def set_hoveredNode_def hoveredNodeWatcher_def
        setHoverNeighbors_def prims Let_def)

lemma setSelectedNode_keeps [simp]:
  "highlightedNodes (rg_state (setSelectedNode i g)) = highlightedNodes (rg_state g)"
  "rg_app (setSelectedNode i g) = rg_app g"
  "hoveredNode (rg_state (setSelectedNode i g)) = hoveredNode (rg_state g)"
  "hoverNeighbors (rg_state (setSelectedNode i g)) = hoverNeighbors (rg_state g)"
  by (simp_all add: setSelectedNode_def setSelectedNeighbors_def prims Let_def)

lemma selectedNode_setSelectedNode [simp]:
  "selectedNode (rg_state (setSelectedNode i g)) = i"
  by (simp add: setSelectedNode_def setSelectedNeighbors_def prims Let_def)











lemma fresh_emit [simp]:
  "hover_fresh (emit e g) = hover_fresh g"
  "hover_fresh (setCursorStyle c g) = hover_fresh g"
  "select_fresh (emit e g) = select_fresh g"
  "select_fresh (raiseEvent ev g) = select_fresh g"
  "select_fresh (render g) = select_fresh g"
  "select_fresh (setCursorStyle c g) = select_fresh g"
  by (simp_all add: hover_fresh_def select_fresh_def)


subsection \<open>Auxiliary facts about the handlers\<close>

lemma highlight_None:
  "highlight None g = Inr (render (g\<lparr>rg_state := (rg_state g)\<lparr>highlightedNodes := []\<rparr>\<rparr>))"
  by (simp add: highlight_def)

lemma move_keeps:
  "handleMouseMove pos g = Inr g' \<Longrightarrow>
     selectedNode (rg_state g') = selectedNode (rg_state g) \<and>
     highlightedNodes (rg_state g') = highlightedNodes (rg_state g) \<and>
     selectedNeighbors (rg_state g') = selectedNeighbors (rg_state g) \<and> rg_app g' = rg_app g"
  by (auto simp: handleMouseMove_def Let_def split: if_splits sum.splits)

lemma click_shape:
  assumes ck: "handleClick g = Inr g'"
  shows "\<exists>idx node. g' = raiseEvent (Click node)
           (setSelectedNode idx (render (g\<lparr>rg_state := (rg_state g)\<lparr>highlightedNodes := []\<rparr>\<rparr>)))"
proof (cases "raycast g")
  case (Inl e)
  then show ?thesis using ck by (simp add: handleClick_def)
next
  case (Inr cp)
  let ?g1 = "render (g\<lparr>rg_state := (rg_state g)\<lparr>highlightedNodes := []\<rparr>\<rparr>)"
  show ?thesis
  proof (cases "truthy_index cp")
    case True
    then have "g' = raiseEvent (Click (getNodeByIndex (rg_app (setSelectedNode (int (the cp)) ?g1))
                                         (int (the cp))))
                      (setSelectedNode (int (the cp)) ?g1)"
      using ck Inr by (simp add: handleClick_def highlight_None Let_def)
    then show ?thesis by blast
  next
    case False
    then have "g' = raiseEvent (Click None) (setSelectedNode (- 1) ?g1)"
      using ck Inr by (simp add: handleClick_def highlight_None)
    then show ?thesis by blast
  qed
qed

lemma click_clears_highlight:
  assumes ck: "handleClick g = Inr g'"
  shows "highlightedNodes (rg_state g') = []"
proof -
  from click_shape[OF ck] obtain idx node where
    "g' = raiseEvent (Click node)
           (setSelectedNode idx (render (g\<lparr>rg_state := (rg_state g)\<lparr>highlightedNodes := []\<rparr>\<rparr>)))"
    by blast
  then show ?thesis by simp
qed

lemma highlight_clears_selection:
  "highlight (Some ids) g = Inr g' \<Longrightarrow> selectedNode (rg_state g') = - 1"
  by (auto simp: highlight_def split: sum.splits)

lemma resolveIds_ok:
  "set ids \<subseteq> dom (g_nodes gr) \<Longrightarrow> \<exists>ixs. resolveIds gr ids = Inr ixs"
  by (induction ids) auto

subsection \<open>Auxiliary facts: the small instance\<close>

lemma upt3: "[0..<3] = [0,1,2]" by (simp add: upt_rec)

lemma example_world: "getScatterGlPos None (example_at (x, y)) = (x, y)"
  by (simp add: getScatterGlPos_def getMouseGlPos_def getNdcX_def getNdcY_def example_at_def
        initial_def example_app_def mat3_projection_def mat3_create_def Let_def)

lemma example_radius: "scaledPointSize (example_at pos) = 5000"
  by (simp add: scaledPointSize_def example_at_def initial_def example_app_def minNumber_def maxNumber_def)

lemma example_bbox: "pointsInBBox (example_at (1, 1)) = [0, 1, 2]"
  "pointsInBBox (example_at (4, 5)) = [0, 1, 2]"
  by (simp_all add: pointsInBBox_def example_world example_radius)
     (simp_all add: example_at_def initial_def example_app_def KDBush_def upt3)

lemma example_raycast: "raycast (example_at (1, 1)) = Inr (Some 0)"
  "raycast (example_at (4, 5)) = Inr (Some 1)"
  by (simp_all add: raycast_def example_world example_radius example_bbox)
     (simp_all add: example_at_def initial_def example_app_def KDBush_def distance_def)

subsection \<open>Auxiliary facts: changes of hover and selection, invariants\<close>








lemma exclusive_step:
  assumes ex: "exclusive g"
  shows "exclusive (apply_op opn g)"
proof (cases opn)
  case (MouseMove pos)
  show ?thesis
  proof (cases "handleMouseMove pos g")
    case (Inl e)
    then show ?thesis using ex MouseMove by (simp add: exclusive_def)
  next
    case (Inr g')
    from move_keeps[OF Inr] show ?thesis using ex MouseMove Inr by (simp add: exclusive_def)
  qed
next
  case MouseClick
  show ?thesis
  proof (cases "handleClick g")
    case (Inl e)
    then show ?thesis using ex MouseClick by simp
  next
    case (Inr g')
    from click_clears_highlight[OF Inr] show ?thesis using MouseClick Inr by (simp add: exclusive_def)
  qed
next
  case (Highlight ids)
  show ?thesis
  proof (cases "highlight ids g")
    case (Inl e)
    then show ?thesis using ex Highlight by simp
  next
    case (Inr g')
    show ?thesis
    proof (cases ids)
      case None
      then show ?thesis using Highlight by (simp add: exclusive_def highlight_def)
    next
      case (Some l)
      with Inr have "selectedNode (rg_state g') = - 1" by (simp add: highlight_clears_selection)
      then show ?thesis using Highlight Inr by (simp add: exclusive_def)
    qed
  qed
next
  case MouseDown
  then show ?thesis using ex by (simp add: exclusive_def handleMouseDown_def)
next
  case MouseUp
  then show ?thesis using ex by (simp add: exclusive_def handleMouseUp_def)
next
  case (ZoomTo x y k)
  then show ?thesis using ex by (simp add: exclusive_def handleZoom_def updateTransform_def Let_def)
qed

lemma reachable_exclusive: "reachable a g \<Longrightarrow> exclusive g"
proof (induction rule: reachable.induct)
  case start
  show ?case by (simp add: initial_def exclusive_def)
next
  case (step g opn)
  then show ?case by (simp add: exclusive_step)
qed


lemmas example_defs = example_at_def initial_def example_app_def KDBush_def

lemma with_mouse_initial:
  "(initial example_app)\<lparr>rg_state := (rg_state (initial example_app))\<lparr>mousePosition := pos\<rparr>\<rparr> = example_at pos"
  by (simp add: example_at_def)

lemma example_at_fields [simp]:
  "rg_app (example_at pos) = example_app" "trace (example_at pos) = []"
  by (simp_all add: example_defs)

lemma example_move_hit:
  "handleMouseMove (4, 5) (initial example_app) =
     Inr (emit (TooltipShow (Some ''b'')) (setCursorStyle ''pointer'' (setHoveredNode 1 (example_at (4, 5)))))"
  by (simp add: handleMouseMove_def with_mouse_initial example_raycast Let_def)
     (simp add: example_defs getNodeByIndex_def getNode_def)

lemma example_hover_1:
  "rg_state (setHoveredNode 1 (example_at pos)) = (rg_state (example_at pos))\<lparr>hoveredNode := 1, hoverNeighbors := [0, 2]\<rparr>"
  "trace (setHoveredNode 1 (example_at pos)) = [Assigned ''state.hoveredNode'', Raised (NodeOver (Some ''b'')), Assigned ''state.hoverNeighbors'', Rendered]"
  by (simp_all add: setHoveredNode_def set_hoveredNode_def hoveredNodeWatcher_def setHoverNeighbors_def
        prims Let_def example_defs getNodeByIndex_def getNodeNeighbors_def getNode_def)

lemma hovering_state: "rg_state hovering = (rg_state (example_at (4, 5)))\<lparr>hoveredNode := 1, hoverNeighbors := [0, 2]\<rparr>"
  "rg_app hovering = example_app"
  "trace hovering = [Assigned ''state.hoveredNode'', Raised (NodeOver (Some ''b'')), Assigned ''state.hoverNeighbors'', Rendered, CursorStyle ''pointer'', TooltipShow (Some ''b'')]"
  by (simp_all add: hovering_def example_move_hit example_hover_1 prims)

lemma raycast_depends:
  assumes "rg_app g' = rg_app g" "transform (rg_state g') = transform (rg_state g)"
    "projection (rg_state g') = projection (rg_state g)"
    "mousePosition (rg_state g') = mousePosition (rg_state g)"
  shows "raycast g' = raycast g"
  using assms
  by (simp add: raycast_def pointsInBBox_def getScatterGlPos_def getMouseGlPos_def scaledPointSize_def)



subsection \<open>C2: render index 0 is handled as a miss\<close>


lemma raycast_hovering: "raycast hovering = Inr (Some 1)"
  using raycast_depends[of hovering "example_at (4, 5)"]
  by (simp add: hovering_state example_raycast)

lemma example_select_1:
  assumes "rg_app g = example_app" "selectedNode (rg_state g) = - 1"
  shows "rg_state (setSelectedNode 1 g) = (rg_state g)\<lparr>selectedNode := 1, selectedNeighbors := [0, 2]\<rparr>"
    and "trace (setSelectedNode 1 g) = trace g @ [Assigned ''state.selectedNode'',
           Assigned ''state.selectedNeighbors'', Raised (NodeSelect (Some ''b'')), Rendered]"
  using assms
  by (simp_all add: setSelectedNode_def setSelectedNeighbors_def prims Let_def
        getNodeByIndex_def getNodeNeighbors_def getNode_def example_app_def)

lemma selecting_state:
  "rg_state selecting = (rg_state (example_at (4, 5)))
      \<lparr>hoveredNode := 1, hoverNeighbors := [0, 2], selectedNode := 1, selectedNeighbors := [0, 2]\<rparr>"
  "rg_app selecting = example_app"
proof -
  let ?g1 = "render (hovering\<lparr>rg_state := (rg_state hovering)\<lparr>highlightedNodes := []\<rparr>\<rparr>)"
  have a: "rg_app ?g1 = example_app" "selectedNode (rg_state ?g1) = - 1"
    by (simp_all add: hovering_state) (simp add: example_defs)
  have "handleClick hovering = Inr (raiseEvent (Click (getNodeByIndex example_app 1)) (setSelectedNode 1 ?g1))"
    by (simp add: handleClick_def raycast_hovering highlight_None Let_def hovering_state)
  then have s: "selecting = raiseEvent (Click (getNodeByIndex example_app 1)) (setSelectedNode 1 ?g1)"
    by (simp add: selecting_def)
  show "rg_state selecting = (rg_state (example_at (4, 5)))
      \<lparr>hoveredNode := 1, hoverNeighbors := [0, 2], selectedNode := 1, selectedNeighbors := [0, 2]\<rparr>"
    unfolding s using example_select_1(1)[OF a] by (simp add: hovering_state) (simp add: example_defs)
  show "rg_app selecting = example_app" unfolding s by (simp add: hovering_state)
qed



subsection \<open>C4: neighbour sets on a change of hover or selection\<close>







subsection \<open>C5: highlight and selection exclude each other\<close>

lemma resolveIds_example: "resolveIds (graph example_app) [''a'', ''c''] = Inr [0, 2]"
  by (simp add: example_app_def)

lemma highlight_ok:
  assumes "set ids \<subseteq> dom (g_nodes (graph (rg_app g)))"
  shows "\<exists>g'. highlight (Some ids) g = Inr g' \<and> selectedNode (rg_state g') = - 1"
proof -
  from resolveIds_ok[OF assms] obtain ixs where "resolveIds (graph (rg_app g)) ids = Inr ixs" by blast
  then show ?thesis by (simp add: highlight_def)
qed

lemma highlighting_state:
  "highlight (Some [''a'', ''c'']) selecting = Inr highlighting"
  "selectedNode (rg_state highlighting) = - 1"
  "highlightedNodes (rg_state highlighting) = [0, 2]"
  "rg_app highlighting = example_app"
  "transform (rg_state highlighting) = transform (rg_state (example_at (4, 5)))"
  "projection (rg_state highlighting) = projection (rg_state (example_at (4, 5)))"
  "mousePosition (rg_state highlighting) = mousePosition (rg_state (example_at (4, 5)))"
proof -
  have h: "highlight (Some [''a'', ''c'']) selecting =
       Inr (render (setSelectedNode (- 1)
              (selecting\<lparr>rg_state := (rg_state selecting)\<lparr>highlightedNodes := [0, 2]\<rparr>\<rparr>)))"
    by (simp add: highlight_def selecting_state(2) resolveIds_example del: resolveIds.simps)
  then have eq: "highlighting = render (setSelectedNode (- 1)
              (selecting\<lparr>rg_state := (rg_state selecting)\<lparr>highlightedNodes := [0, 2]\<rparr>\<rparr>))"
    by (simp add: highlighting_def)
  show "highlight (Some [''a'', ''c'']) selecting = Inr highlighting" using h eq by simp
  show "selectedNode (rg_state highlighting) = - 1" unfolding eq by simp
  show "highlightedNodes (rg_state highlighting) = [0, 2]" unfolding eq by simp
  show "rg_app highlighting = example_app" unfolding eq by (simp add: selecting_state)
  show "transform (rg_state highlighting) = transform (rg_state (example_at (4, 5)))"
    "projection (rg_state highlighting) = projection (rg_state (example_at (4, 5)))"
    "mousePosition (rg_state highlighting) = mousePosition (rg_state (example_at (4, 5)))"
    unfolding eq
    by (simp_all add: setSelectedNode_def setSelectedNeighbors_def prims Let_def selecting_state)
qed

lemma raycast_highlighting: "raycast highlighting = Inr (Some 1)"
  using raycast_depends[of highlighting "example_at (4, 5)"]
  by (simp add: highlighting_state example_raycast)

lemma reachable_highlighting: "reachable example_app highlighting"
  unfolding highlighting_def selecting_def hovering_def
  by (intro reachable.step reachable.start)

text \<open>
  Claim C5. \<open>highlight\<close> with a list of ids of nodes of the graph returns and leaves
  \<open>selectedNode = -1\<close>. A click (the one way a selection is set) leaves
  \<open>highlightedNodes\<close> empty. Every operation keeps, and every state reachable from the
  constructor's state has, \<open>selectedNode = -1\<close> or \<open>highlightedNodes = []\<close>.
\<close>

theorem C5_highlight_and_selection_exclude_each_other:
  "(set ids \<subseteq> dom (g_nodes (graph (rg_app g))) \<longrightarrow>
      (\<exists>g'. highlight (Some ids) g = Inr g' \<and> selectedNode (rg_state g') = - 1))
   \<and> (highlight (Some ids) g = Inr g' \<longrightarrow> selectedNode (rg_state g') = - 1)
   \<and> (handleClick g = Inr g'' \<longrightarrow> highlightedNodes (rg_state g'') = [])
   \<and> (exclusive g \<longrightarrow> exclusive (apply_op opn g))
   \<and> (reachable a g \<longrightarrow> exclusive g)"
  using highlight_ok[of ids g] highlight_clears_selection[of ids g g']
    click_clears_highlight[of g g''] exclusive_step[of g opn] reachable_exclusive[of a g]
  by blast

theorem C5_highlight_and_selection_exclude_each_other_witness:
  "selectedNode (rg_state selecting) = 1 \<and>
   set [''a'', ''c''] \<subseteq> dom (g_nodes (graph (rg_app selecting))) \<and>
   highlight (Some [''a'', ''c'']) selecting = Inr highlighting \<and>
   selectedNode (rg_state highlighting) = - 1 \<and>
   highlightedNodes (rg_state highlighting) = [0, 2] \<and>
   (\<exists>g''. handleClick highlighting = Inr g'' \<and> selectedNode (rg_state g'') = 1 \<and>
          highlightedNodes (rg_state g'') = []) \<and>
   reachable example_app highlighting \<and> exclusive highlighting \<and>
   exclusive (apply_op MouseClick highlighting)"
proof -
  let ?g1 = "render (highlighting\<lparr>rg_state := (rg_state highlighting)\<lparr>highlightedNodes := []\<rparr>\<rparr>)"
  have ids: "set [''a'', ''c''] \<subseteq> dom (g_nodes (graph (rg_app selecting)))"
    by (simp add: selecting_state) (simp add: example_app_def)
  have sel: "selectedNode (rg_state selecting) = 1" by (simp add: selecting_state)
  have ck: "handleClick highlighting =
      Inr (raiseEvent (Click (getNodeByIndex example_app 1)) (setSelectedNode 1 ?g1))"
    by (simp add: handleClick_def raycast_highlighting highlight_None Let_def highlighting_state)
  have a: "selectedNode (rg_state highlighting) = - 1"
    using C5_highlight_and_selection_exclude_each_other[where g = selecting and ids = "[''a'', ''c'']"
        and g' = highlighting] highlighting_state(1) by blast
  have b: "highlightedNodes (rg_state (raiseEvent (Click (getNodeByIndex example_app 1))
              (setSelectedNode 1 ?g1))) = []"
    using C5_highlight_and_selection_exclude_each_other[where g = highlighting] ck by blast
  have c: "exclusive highlighting"
    using C5_highlight_and_selection_exclude_each_other[where g = highlighting and a = example_app]
      reachable_highlighting by blast
  have d: "exclusive (apply_op MouseClick highlighting)"
    using C5_highlight_and_selection_exclude_each_other[where g = highlighting and opn = MouseClick] c
    by blast
  have e: "selectedNode (rg_state (raiseEvent (Click (getNodeByIndex example_app 1))
              (setSelectedNode 1 ?g1))) = 1" by simp
  show ?thesis
    using ids sel a b c d e ck highlighting_state(1,3) reachable_highlighting by simp
qed

subsection \<open>C1: picking within the radius\<close>

lemma distance_nonneg: "0 \<le> distance x1 y1 x2 y2"
  by (simp add: distance_def)

lemma distance_zero_iff: "distance x1 y1 x2 y2 = 0 \<longleftrightarrow> x1 = x2 \<and> y1 = y2"
  by (simp add: distance_def sum_power2_eq_zero_iff)

lemma closest_bound:
  assumes "closest pts mx my cands (m, cp) = Inr (m', cp')"
  shows "(m' = m \<and> cp' = cp) \<or>
         (\<exists>i. cp' = Some i \<and> i \<in> set cands \<and> i < length pts \<and>
              (case pts ! i of (x, y, _) \<Rightarrow> distance x y mx my = m') \<and> m' < m)"
  using assms
proof (induction cands arbitrary: m cp)
  case Nil
  then show ?case by simp
next
  case (Cons idx rest)
  from Cons.prems have v: "idx < length pts" by (auto split: if_splits)
  obtain x y z where p: "pts ! idx = (x, y, z)" by (cases "pts ! idx") auto
  let ?d = "distance x y mx my"
  show ?case
  proof (cases "?d < m")
    case True
    with Cons.prems v p have "closest pts mx my rest (?d, Some idx) = Inr (m', cp')"
      by (simp add: Let_def)
    from Cons.IH[OF this] True p v show ?thesis by auto
  next
    case False
    with Cons.prems v p have "closest pts mx my rest (m, cp) = Inr (m', cp')"
      by (simp add: Let_def)
    from Cons.IH[OF this] show ?thesis by auto
  qed
qed

lemma closest_keeps_zero:
  assumes "\<forall>i \<in> set cands. i < length pts"
  shows "closest pts mx my cands (0, cp) = Inr (0, cp)"
  using assms
proof (induction cands)
  case Nil
  then show ?case by simp
next
  case (Cons idx rest)
  obtain x y z where p: "pts ! idx = (x, y, z)" by (cases "pts ! idx") auto
  have "\<not> distance x y mx my < 0" using distance_nonneg[of x y mx my] by simp
  with Cons p show ?case by (simp add: Let_def)
qed

lemma closest_exact:
  assumes v: "\<forall>i \<in> set cands. i < length pts"
    and m: "0 < m"
    and ex: "\<exists>j \<in> set cands. (case pts ! j of (x, y, _) \<Rightarrow> x = mx \<and> y = my)"
  shows "\<exists>k. closest pts mx my cands (m, cp) = Inr (0, Some k) \<and>
             List.find (\<lambda>j. case pts ! j of (x, y, _) \<Rightarrow> x = mx \<and> y = my) cands = Some k"
  using v m ex
proof (induction cands arbitrary: m cp)
  case Nil
  then show ?case by simp
next
  case (Cons idx rest)
  obtain x y z where p: "pts ! idx = (x, y, z)" by (cases "pts ! idx") auto
  have vi: "idx < length pts" and vr: "\<forall>i \<in> set rest. i < length pts" using Cons.prems(1) by auto
  let ?d = "distance x y mx my"
  show ?case
  proof (cases "x = mx \<and> y = my")
    case True
    then have d0: "?d = 0" by (simp add: distance_zero_iff)
    then have "closest pts mx my (idx # rest) (m, cp) = closest pts mx my rest (0, Some idx)"
      using vi p Cons.prems(2) by (simp add: Let_def)
    then show ?thesis using closest_keeps_zero[OF vr] True p by simp
  next
    case False
    then have dpos: "0 < ?d" using distance_nonneg[of x y mx my] distance_zero_iff[of x y mx my]
      by (simp add: less_le)
    from False Cons.prems(3) p have exr: "\<exists>j \<in> set rest. (case pts ! j of (x, y, _) \<Rightarrow> x = mx \<and> y = my)"
      by auto
    show ?thesis
    proof (cases "?d < m")
      case True
      from Cons.IH[OF vr dpos exr, of "Some idx"] True False vi p show ?thesis by (auto simp: Let_def)
    next
      case F2: False
      from Cons.IH[OF vr Cons.prems(2) exr, of cp] F2 False vi p show ?thesis by (auto simp: Let_def)
    qed
  qed
qed

lemma scaledPointSize_eq: "scaledPointSize g = 5000 * devicePixelRatio (rg_app g)"
  by (simp add: scaledPointSize_def minNumber_def maxNumber_def)

lemma raycast_within:
  assumes "raycast g = Inr (Some i)"
  shows "i \<in> set (pointsInBBox g) \<and> i < length (kd_points (searchIndex (rg_app g))) \<and>
         cursor_distance g i < scaledPointSize g"
proof -
  obtain mx my where w: "getScatterGlPos None g = (mx, my)" by (cases "getScatterGlPos None g") auto
  from assms w obtain m' where
    "closest (kd_points (searchIndex (rg_app g))) mx my (pointsInBBox g) (scaledPointSize g, None)
       = Inr (m', Some i)"
    by (auto simp: raycast_def split: sum.splits)
  from closest_bound[OF this] w show ?thesis
    by (auto simp: cursor_distance_def split: prod.splits)
qed

lemma raycast_exact:
  assumes dpr: "0 < devicePixelRatio (rg_app g)"
    and v: "\<forall>i \<in> set (pointsInBBox g). i < length (kd_points (searchIndex (rg_app g)))"
    and ex: "\<exists>j \<in> set (pointsInBBox g). at_cursor g j"
  shows "\<exists>k. raycast g = Inr (Some k) \<and> List.find (at_cursor g) (pointsInBBox g) = Some k"
proof -
  obtain mx my where w: "getScatterGlPos None g = (mx, my)" by (cases "getScatterGlPos None g") auto
  let ?pts = "kd_points (searchIndex (rg_app g))"
  have eq: "at_cursor g = (\<lambda>j. case ?pts ! j of (x, y, _) \<Rightarrow> x = mx \<and> y = my)"
    by (auto simp: at_cursor_def w fun_eq_iff split: prod.splits)
  have m: "0 < scaledPointSize g" using dpr by (simp add: scaledPointSize_eq)
  from closest_exact[OF v m, of mx my None] ex obtain k where
    "closest ?pts mx my (pointsInBBox g) (scaledPointSize g, None) = Inr (0, Some k)"
    "List.find (\<lambda>j. case ?pts ! j of (x, y, _) \<Rightarrow> x = mx \<and> y = my) (pointsInBBox g) = Some k"
    unfolding eq by blast
  then show ?thesis unfolding eq by (simp add: raycast_def w)
qed

lemma example_at_cursor:
  "at_cursor (example_at (4, 5)) 1" "at_cursor (example_at (4, 5)) 2" "\<not> at_cursor (example_at (4, 5)) 0"
  "at_cursor (example_at (1, 1)) 0" "\<not> at_cursor (example_at (1, 1)) 1" "\<not> at_cursor (example_at (1, 1)) 2"
  by (simp_all add: at_cursor_def example_world) (simp_all add: example_defs)

lemma example_valid:
  "\<forall>i \<in> set (pointsInBBox (example_at (4, 5))). i < length (kd_points (searchIndex (rg_app (example_at (4, 5)))))"
  "\<forall>i \<in> set (pointsInBBox (example_at (1, 1))). i < length (kd_points (searchIndex (rg_app (example_at (1, 1)))))"
  by (simp_all add: example_bbox) (simp_all add: example_defs)

text \<open>
  Claim C1 as stated fails where two nodes share a position: with the cursor at
  \<open>(4, 5)\<close> the candidates are 0, 1 and 2, node 2 lies at the cursor's exact world
  position, and \<open>raycast\<close> returns node 1 (the first candidate at distance 0).
\<close>

theorem C1_counterexample:
  "pointsInBBox (example_at (4, 5)) = [0, 1, 2] \<and>
   at_cursor (example_at (4, 5)) 2 \<and>
   raycast (example_at (4, 5)) = Inr (Some 1) \<and>
   raycast (example_at (4, 5)) \<noteq> Inr (Some 2)"
  by (simp add: example_bbox example_at_cursor example_raycast)

text \<open>
  Claim C1, amended. A node that \<open>raycast\<close> returns is a candidate of the range query
  whose distance from the cursor's world position is below the search radius
  \<open>scaledPointSize\<close>. When the device pixel ratio is positive, the range query answers
  with indices of indexed points and some candidate lies at the cursor's exact world
  position, \<open>raycast\<close> returns a node at that position: the first such candidate in the
  order of the answer, hence that node itself when no other candidate shares its
  position.
\<close>

theorem C1_raycast_radius_and_exact_hit:
  "(raycast g = Inr (Some i) \<longrightarrow>
      i \<in> set (pointsInBBox g) \<and> cursor_distance g i < scaledPointSize g \<and>
      \<not> cursor_distance g i > scaledPointSize g)
   \<and> (0 < devicePixelRatio (rg_app g) \<and>
       (\<forall>i \<in> set (pointsInBBox g). i < length (kd_points (searchIndex (rg_app g)))) \<and>
       j \<in> set (pointsInBBox g) \<and> at_cursor g j \<longrightarrow>
         (\<exists>k. raycast g = Inr (Some k) \<and> at_cursor g k \<and>
              List.find (at_cursor g) (pointsInBBox g) = Some k) \<and>
         ((\<forall>j' \<in> set (pointsInBBox g). at_cursor g j' \<longrightarrow> j' = j) \<longrightarrow> raycast g = Inr (Some j)))"
proof -
  have a: "raycast g = Inr (Some i) \<longrightarrow>
      i \<in> set (pointsInBBox g) \<and> cursor_distance g i < scaledPointSize g \<and>
      \<not> cursor_distance g i > scaledPointSize g"
    using raycast_within[of g i] by auto
  have b: "(\<exists>k. raycast g = Inr (Some k) \<and> at_cursor g k \<and>
              List.find (at_cursor g) (pointsInBBox g) = Some k) \<and>
         ((\<forall>j' \<in> set (pointsInBBox g). at_cursor g j' \<longrightarrow> j' = j) \<longrightarrow> raycast g = Inr (Some j))"
    if h: "0 < devicePixelRatio (rg_app g)"
      "\<forall>i \<in> set (pointsInBBox g). i < length (kd_points (searchIndex (rg_app g)))"
      "j \<in> set (pointsInBBox g)" "at_cursor g j"
  proof -
    from raycast_exact[OF h(1,2)] h(3,4) obtain k where
      k: "raycast g = Inr (Some k)" "List.find (at_cursor g) (pointsInBBox g) = Some k" by blast
    from k(2) have kc: "at_cursor g k" "k \<in> set (pointsInBBox g)"
      by (auto simp: find_Some_iff)
    show ?thesis using k kc by auto
  qed
  show ?thesis using a b by blast
qed

theorem C1_raycast_radius_and_exact_hit_witness:
  "raycast (example_at (4, 5)) = Inr (Some 1) \<and>
   pointsInBBox (example_at (4, 5)) = [0, 1, 2] \<and>
   length (kd_points (searchIndex (rg_app (example_at (4, 5))))) = 3 \<and>
   cursor_distance (example_at (4, 5)) 1 < scaledPointSize (example_at (4, 5)) \<and>
   0 < devicePixelRatio (rg_app (example_at (4, 5))) \<and>
   at_cursor (example_at (4, 5)) 2 \<and>
   List.find (at_cursor (example_at (4, 5))) (pointsInBBox (example_at (4, 5))) = Some 1 \<and>
   pointsInBBox (example_at (1, 1)) = [0, 1, 2] \<and>
   filter (at_cursor (example_at (1, 1))) (pointsInBBox (example_at (1, 1))) = [0] \<and>
   raycast (example_at (1, 1)) = Inr (Some 0)"
proof -
  have dpr: "0 < devicePixelRatio (rg_app (example_at (4, 5)))" "0 < devicePixelRatio (rg_app (example_at (1, 1)))"
    by (simp_all add: example_app_def)
  have len: "length (kd_points (searchIndex (rg_app (example_at (4, 5))))) = 3"
    by (simp add: example_app_def KDBush_def)
  have f: "filter (at_cursor (example_at (1, 1))) (pointsInBBox (example_at (1, 1))) = [0]"
    using example_at_cursor by (simp add: example_bbox)
  have u: "\<forall>j' \<in> set (pointsInBBox (example_at (1, 1))). at_cursor (example_at (1, 1)) j' \<longrightarrow> j' = 0"
    using example_at_cursor by (auto simp: example_bbox)
  have m: "2 \<in> set (pointsInBBox (example_at (4, 5)))" "1 \<in> set (pointsInBBox (example_at (4, 5)))"
    "0 \<in> set (pointsInBBox (example_at (1, 1)))"
    by (simp_all add: example_bbox)
  have a: "cursor_distance (example_at (4, 5)) 1 < scaledPointSize (example_at (4, 5))"
    using C1_raycast_radius_and_exact_hit[where g = "example_at (4, 5)" and i = 1] example_raycast(2)
    by blast
  have b: "\<exists>k. raycast (example_at (4, 5)) = Inr (Some k) \<and>
              List.find (at_cursor (example_at (4, 5))) (pointsInBBox (example_at (4, 5))) = Some k"
    using C1_raycast_radius_and_exact_hit[where g = "example_at (4, 5)" and j = 2]
      dpr(1) example_valid(1) m(1) example_at_cursor(2) by blast
  have c: "raycast (example_at (1, 1)) = Inr (Some 0)"
    using C1_raycast_radius_and_exact_hit[where g = "example_at (1, 1)" and j = 0]
      dpr(2) example_valid(2) m(3) example_at_cursor(4) u by blast
  from b example_raycast(2) have d:
    "List.find (at_cursor (example_at (4, 5))) (pointsInBBox (example_at (4, 5))) = Some 1" by simp
  show ?thesis using example_raycast(2) example_bbox len a dpr(1) example_at_cursor(2) d f c
    by simp
qed

subsection \<open>C3: the search radius and the zoom level\<close>

lemma zoomed_state:
  "rg_app zoomed = example_app" "mat3_elem0 (transform (rg_state zoomed)) = 4"
  "mat3_elem0 (transform (rg_state (initial example_app))) = 1"
  by (simp_all add: zoomed_def handleZoom_def updateTransform_def Let_def initial_def mat3_create_def)

lemma spec_radius_4: "spec_radius 4 1 = 15000"
proof -
  have "(4::real) = 2 powr 2" by simp
  then have "log 2 4 = (2::real)" by (simp only: log_powr_cancel)
  then show ?thesis by (simp add: spec_radius_def)
qed

text \<open>
  Claim C3 as stated fails: after zooming to level 4 (device pixel ratio 1) the formula
  gives the radius 15000, while \<open>raycast\<close> uses 5000, the radius it uses at level 1.
\<close>

theorem C3_counterexample:
  "mat3_elem0 (transform (rg_state (initial example_app))) = 1 \<and>
   mat3_elem0 (transform (rg_state (handleZoom 0 0 4 (initial example_app)))) = 4 \<and>
   devicePixelRatio (rg_app (handleZoom 0 0 4 (initial example_app))) = 1 \<and>
   spec_radius 4 1 = 15000 \<and>
   scaledPointSize (handleZoom 0 0 4 (initial example_app)) = 5000 \<and>
   scaledPointSize (initial example_app) = 5000"
  using zoomed_state spec_radius_4
  by (simp add: zoomed_def[symmetric] scaledPointSize_eq) (simp add: initial_def example_app_def)

text \<open>
  Claim C3, amended. The search radius of \<open>raycast\<close> is the formula with the zoom
  factor fixed at the constant 1, that is \<open>5000 * devicePixelRatio\<close>. It does not read
  the transform: two states of one instance, whatever their zoom, have the same radius,
  and a zoom step leaves it unchanged.
\<close>

theorem C3_search_radius_ignores_zoom:
  "scaledPointSize g = spec_radius 1 (devicePixelRatio (rg_app g)) \<and>
   scaledPointSize g = 5000 * devicePixelRatio (rg_app g) \<and>
   (rg_app g' = rg_app g \<longrightarrow> scaledPointSize g' = scaledPointSize g) \<and>
   scaledPointSize (handleZoom x y k g) = scaledPointSize g"
  by (simp add: scaledPointSize_eq spec_radius_def handleZoom_def updateTransform_def Let_def)

theorem C3_search_radius_ignores_zoom_witness:
  "rg_app zoomed = rg_app (initial example_app) \<and>
   mat3_elem0 (transform (rg_state zoomed)) = 4 \<and>
   mat3_elem0 (transform (rg_state (initial example_app))) = 1 \<and>
   scaledPointSize zoomed = scaledPointSize (initial example_app)"
  using C3_search_radius_ignores_zoom[where g = "initial example_app" and g' = zoomed] zoomed_state
  by (simp add: initial_def)

subsection \<open>C10: screen to world never fails\<close>

lemma mat3_invert_None_iff: "mat3_invert m = None \<longleftrightarrow> mat3_det m = 0"
  by (cases m) (simp add: Let_def algebra_simps)

lemma vec3_transformMat3_identity: "vec3_transformMat3 (x, y, 1) (Mat3 1 0 0 0 1 0 0 0 1) = (x, y, 1)"
  by simp

lemma getScatterGlPos_singular:
  assumes "mat3_invert (mat3_multiply (projection (rg_state g)) (transform (rg_state g))) = None"
  shows "getScatterGlPos pos g = (case pos of Some p \<Rightarrow> p | None \<Rightarrow> getMouseGlPos g)"
  using assms by (simp add: getScatterGlPos_def Let_def split: prod.splits option.splits)

lemma getScatterGlPos_regular:
  assumes "mat3_invert (mat3_multiply (projection (rg_state g)) (transform (rg_state g))) = Some m"
  shows "getScatterGlPos pos g =
           (case (case pos of Some p \<Rightarrow> p | None \<Rightarrow> getMouseGlPos g) of
              (xGl, yGl) \<Rightarrow> (case vec3_transformMat3 (xGl, yGl, 1) m of (x, y, z) \<Rightarrow> (x, y)))"
  using assms by (simp add: getScatterGlPos_def Let_def split: prod.splits option.splits)

lemma inverse_entry:
  fixes d :: real
  assumes "d \<noteq> 0" and "c1 * a1 + c2 * a2 + c3 * a3 = n * d"
  shows "c1 * (1 / d) * a1 + c2 * (1 / d) * a2 + c3 * (1 / d) * a3 = n"
proof -
  have "c1 * (1 / d) * a1 + c2 * (1 / d) * a2 + c3 * (1 / d) * a3 = (c1 * a1 + c2 * a2 + c3 * a3) / d"
    by (simp add: add_divide_distrib)
  also have "\<dots> = n" using assms by simp
  finally show ?thesis .
qed

lemma mat3_invert_right:
  assumes "mat3_invert a = Some b"
  shows "mat3_multiply a b = mat3_create"
proof (cases a)
  case (Mat3 a00 a01 a02 a10 a11 a12 a20 a21 a22)
  let ?det = "a00 * (a22 * a11 - a12 * a21) + a01 * (- a22 * a10 + a12 * a20) + a02 * (a21 * a10 - a11 * a20)"
  from assms Mat3 have nz: "?det \<noteq> 0" by (auto simp: Let_def split: if_splits)
  from assms Mat3 nz have b: "b = Mat3 ((a22 * a11 - a12 * a21) * (1 / ?det))
                      ((- a22 * a01 + a02 * a21) * (1 / ?det))
                      ((a12 * a01 - a02 * a11) * (1 / ?det))
                      ((- a22 * a10 + a12 * a20) * (1 / ?det))
                      ((a22 * a00 - a02 * a20) * (1 / ?det))
                      ((- a12 * a00 + a02 * a10) * (1 / ?det))
                      ((a21 * a10 - a11 * a20) * (1 / ?det))
                      ((- a21 * a00 + a01 * a20) * (1 / ?det))
                      ((a11 * a00 - a01 * a10) * (1 / ?det))"
    by (auto simp: Let_def split: if_splits)
  show ?thesis unfolding Mat3 b mat3_create_def mat3_multiply.simps mat3.inject
  proof (intro conjI)
    show "(a22 * a11 - a12 * a21) * (1 / ?det) * a00 + (- a22 * a01 + a02 * a21) * (1 / ?det) * a10
          + (a12 * a01 - a02 * a11) * (1 / ?det) * a20 = 1"
      by (rule inverse_entry[OF nz]) (simp add: algebra_simps)
    show "(a22 * a11 - a12 * a21) * (1 / ?det) * a01 + (- a22 * a01 + a02 * a21) * (1 / ?det) * a11
          + (a12 * a01 - a02 * a11) * (1 / ?det) * a21 = 0"
      by (rule inverse_entry[OF nz]) (simp add: algebra_simps)
    show "(a22 * a11 - a12 * a21) * (1 / ?det) * a02 + (- a22 * a01 + a02 * a21) * (1 / ?det) * a12
          + (a12 * a01 - a02 * a11) * (1 / ?det) * a22 = 0"
      by (rule inverse_entry[OF nz]) (simp add: algebra_simps)
    show "(- a22 * a10 + a12 * a20) * (1 / ?det) * a00 + (a22 * a00 - a02 * a20) * (1 / ?det) * a10
          + (- a12 * a00 + a02 * a10) * (1 / ?det) * a20 = 0"
      by (rule inverse_entry[OF nz]) (simp add: algebra_simps)
    show "(- a22 * a10 + a12 * a20) * (1 / ?det) * a01 + (a22 * a00 - a02 * a20) * (1 / ?det) * a11
          + (- a12 * a00 + a02 * a10) * (1 / ?det) * a21 = 1"
      by (rule inverse_entry[OF nz]) (simp add: algebra_simps)
    show "(- a22 * a10 + a12 * a20) * (1 / ?det) * a02 + (a22 * a00 - a02 * a20) * (1 / ?det) * a12
          + (- a12 * a00 + a02 * a10) * (1 / ?det) * a22 = 0"
      by (rule inverse_entry[OF nz]) (simp add: algebra_simps)
    show "(a21 * a10 - a11 * a20) * (1 / ?det) * a00 + (- a21 * a00 + a01 * a20) * (1 / ?det) * a10
          + (a11 * a00 - a01 * a10) * (1 / ?det) * a20 = 0"
      by (rule inverse_entry[OF nz]) (simp add: algebra_simps)
    show "(a21 * a10 - a11 * a20) * (1 / ?det) * a01 + (- a21 * a00 + a01 * a20) * (1 / ?det) * a11
          + (a11 * a00 - a01 * a10) * (1 / ?det) * a21 = 0"
      by (rule inverse_entry[OF nz]) (simp add: algebra_simps)
    show "(a21 * a10 - a11 * a20) * (1 / ?det) * a02 + (- a21 * a00 + a01 * a20) * (1 / ?det) * a12
          + (a11 * a00 - a01 * a10) * (1 / ?det) * a22 = 1"
      by (rule inverse_entry[OF nz]) (simp add: algebra_simps)
  qed
qed

lemma collapsed_state:
  "mat3_invert (mat3_multiply (projection (rg_state collapsed)) (transform (rg_state collapsed))) = None"
  "getMouseGlPos collapsed = (0, - 1)"
  by (simp_all add: collapsed_def handleZoom_def updateTransform_def Let_def prims mat3_create_def
        mat3_projection_def getMouseGlPos_def getNdcX_def getNdcY_def example_defs)

lemma upt2: "[0..<2] = [0,1]" by (simp add: upt_rec)

lemma squeezed_fields:
  "rg_app (squeezed pts) = corner_app pts"
  "mouseDown (rg_state (squeezed pts)) = False"
  "mousePosition (rg_state (squeezed pts)) = (250, 250)"
  "mat3_invert (mat3_multiply (projection (rg_state (squeezed pts))) (transform (rg_state (squeezed pts)))) = None"
  "getMouseGlPos (squeezed pts) = (0, 0)"
  "scaledPointSize (squeezed pts) = 5000"
  by (simp_all add: squeezed_def handleZoom_def updateTransform_def Let_def prims mat3_create_def
        mat3_projection_def getMouseGlPos_def getNdcX_def getNdcY_def initial_def corner_app_def
        scaledPointSize_def minNumber_def maxNumber_def)

lemma squeezed_world: "getScatterGlPos None (squeezed pts) = (0, 0)"
  using getScatterGlPos_singular[OF squeezed_fields(4), of None pts] by (simp add: squeezed_fields)

lemma squeezed_bbox:
  "pointsInBBox (squeezed [(500, 500, 0), (0, 0, 1)]) = [1]"
  "pointsInBBox (squeezed [(500, 500, 0), (250, 250, 1)]) = []"
  by (simp_all add: pointsInBBox_def squeezed_world squeezed_fields)
     (simp_all add: corner_app_def KDBush_def upt2)

lemma squeezed_raycast:
  "raycast (squeezed [(500, 500, 0), (0, 0, 1)]) = Inr (Some 1)"
  by (simp add: raycast_def squeezed_world squeezed_fields squeezed_bbox)
     (simp add: corner_app_def KDBush_def distance_def)

lemma squeezed_self:
  "(squeezed pts)\<lparr>rg_state := (rg_state (squeezed pts))\<lparr>mousePosition := (250, 250)\<rparr>\<rparr> = squeezed pts"
  by (simp add: squeezed_def Let_def)

lemma squeezed_move:
  "handleMouseMove (250, 250) (squeezed [(500, 500, 0), (0, 0, 1)]) =
     Inr (emit (TooltipShow (Some ''b'')) (setCursorStyle ''pointer'' (setHoveredNode 1 (squeezed [(500, 500, 0), (0, 0, 1)]))))"
  by (simp add: handleMouseMove_def squeezed_self squeezed_raycast squeezed_fields Let_def)
     (simp add: squeezed_fields corner_app_def getNodeByIndex_def getNode_def)

lemma squeezed_hover:
  "hoveredNode (rg_state (apply_op (MouseMove (250, 250)) (squeezed [(500, 500, 0), (0, 0, 1)]))) = 1"
  by (simp add: squeezed_move prims setHoveredNode_def set_hoveredNode_def hoveredNodeWatcher_def
      setHoverNeighbors_def Let_def split: option.splits)

lemma raycast_no_candidates: "pointsInBBox g = [] \<Longrightarrow> raycast g = Inr None"
  by (simp add: raycast_def split: prod.splits)

lemma getScatterGlPos_steps_total: "getScatterGlPos_steps pos g = Inr (getScatterGlPos pos g)"
  by (simp add: getScatterGlPos_steps_def getScatterGlPos_def transformMat3_null_def Let_def
      split: prod.splits option.splits)

lemma pointsInBBox_singular:
  assumes "mat3_invert (mat3_multiply (projection (rg_state g)) (transform (rg_state g))) = None"
  shows "pointsInBBox g =
     kd_range (searchIndex (rg_app g))
       (fst (getMouseGlPos g) - scaledPointSize g / width (rg_app g))
       (snd (getMouseGlPos g) - scaledPointSize g / height (rg_app g))
       (fst (getMouseGlPos g) + scaledPointSize g / width (rg_app g))
       (snd (getMouseGlPos g) + scaledPointSize g / height (rg_app g))"
  using getScatterGlPos_singular[OF assms, of None]
  by (simp add: pointsInBBox_def Let_def split: prod.splits)

text \<open>
  Claim C10 as stated fails in its last part: on a canvas of 500 by 500 pixels whose
  second node is rendered at the world origin, with the zoom scale at 0 and the cursor
  at the centre, the composed matrix is singular, the normalized-device point
  \<open>(0, 0)\<close> comes back unchanged, and picking finds node 1, which a pointer move then
  hovers.
\<close>

theorem C10_counterexample:
  "mat3_det (mat3_multiply (projection (rg_state (squeezed [(500, 500, 0), (0, 0, 1)])))
       (transform (rg_state (squeezed [(500, 500, 0), (0, 0, 1)])))) = 0
   \<and> getScatterGlPos None (squeezed [(500, 500, 0), (0, 0, 1)]) = getMouseGlPos (squeezed [(500, 500, 0), (0, 0, 1)])
   \<and> getScatterGlPos None (squeezed [(500, 500, 0), (0, 0, 1)]) = (0, 0)
   \<and> raycast (squeezed [(500, 500, 0), (0, 0, 1)]) = Inr (Some 1)
   \<and> hoveredNode (rg_state (squeezed [(500, 500, 0), (0, 0, 1)])) = - 1
   \<and> hoveredNode (rg_state (apply_op (MouseMove (250, 250)) (squeezed [(500, 500, 0), (0, 0, 1)]))) = 1"
proof -
  have d: "mat3_det (mat3_multiply (projection (rg_state (squeezed [(500, 500, 0), (0, 0, 1)])))
       (transform (rg_state (squeezed [(500, 500, 0), (0, 0, 1)])))) = 0"
    using squeezed_fields(4)[of "[(500, 500, 0), (0, 0, 1)]"] by (simp add: mat3_invert_None_iff)
  have h: "hoveredNode (rg_state (squeezed [(500, 500, 0), (0, 0, 1)])) = - 1"
    by (simp add: squeezed_def handleZoom_def updateTransform_def Let_def prims initial_def)
  show ?thesis using d h squeezed_world squeezed_raycast squeezed_hover
    by (simp add: squeezed_fields)
qed


text \<open>
  Claim C10, amended. \<open>getScatterGlPos\<close> returns a pair for every mouse position and
  every pair of matrices, and no step of it throws. When \<open>mat3.invert\<close> returns \<open>null\<close>,
  which it does exactly when the determinant of \<open>projection * transform\<close> is zero, the
  identity matrix stands in for the inverse and the normalized-device point comes back
  unchanged; otherwise the inverse is applied to the homogeneous point. With a singular
  matrix picking goes on from the normalized-device point: the range query is made
  around it, and \<open>raycast\<close> reports no match when the query returns no candidate.
\<close>

theorem C10_getScatterGlPos_total_with_identity_fallback:
  "getScatterGlPos_steps pos g = Inr (getScatterGlPos pos g)
   \<and> (mat3_det (mat3_multiply (projection (rg_state g)) (transform (rg_state g))) = 0 \<longrightarrow>
        mat3_invert (mat3_multiply (projection (rg_state g)) (transform (rg_state g))) = None \<and>
        getScatterGlPos pos g = (case pos of Some p \<Rightarrow> p | None \<Rightarrow> getMouseGlPos g) \<and>
        getScatterGlPos pos g =
          (case (case pos of Some p \<Rightarrow> p | None \<Rightarrow> getMouseGlPos g) of
             (xGl, yGl) \<Rightarrow> (case vec3_transformMat3 (xGl, yGl, 1) (Mat3 1 0 0 0 1 0 0 0 1) of
                             (x, y, z) \<Rightarrow> (x, y))) \<and>
        pointsInBBox g =
          kd_range (searchIndex (rg_app g))
            (fst (getMouseGlPos g) - scaledPointSize g / width (rg_app g))
            (snd (getMouseGlPos g) - scaledPointSize g / height (rg_app g))
            (fst (getMouseGlPos g) + scaledPointSize g / width (rg_app g))
            (snd (getMouseGlPos g) + scaledPointSize g / height (rg_app g)) \<and>
        (pointsInBBox g = [] \<longrightarrow> raycast g = Inr None))
   \<and> (mat3_det (mat3_multiply (projection (rg_state g)) (transform (rg_state g))) \<noteq> 0 \<longrightarrow>
        (\<exists>m. mat3_invert (mat3_multiply (projection (rg_state g)) (transform (rg_state g))) = Some m \<and>
             mat3_multiply (mat3_multiply (projection (rg_state g)) (transform (rg_state g))) m = mat3_create \<and>
             getScatterGlPos pos g =
               (case (case pos of Some p \<Rightarrow> p | None \<Rightarrow> getMouseGlPos g) of
                  (xGl, yGl) \<Rightarrow> (case vec3_transformMat3 (xGl, yGl, 1) m of (x, y, z) \<Rightarrow> (x, y)))))"
proof -
  let ?M = "mat3_multiply (projection (rg_state g)) (transform (rg_state g))"
  have a: "getScatterGlPos_steps pos g = Inr (getScatterGlPos pos g)"
    by (rule getScatterGlPos_steps_total)
  have b: "mat3_invert ?M = None \<and>
        getScatterGlPos pos g = (case pos of Some p \<Rightarrow> p | None \<Rightarrow> getMouseGlPos g) \<and>
        getScatterGlPos pos g =
          (case (case pos of Some p \<Rightarrow> p | None \<Rightarrow> getMouseGlPos g) of
             (xGl, yGl) \<Rightarrow> (case vec3_transformMat3 (xGl, yGl, 1) (Mat3 1 0 0 0 1 0 0 0 1) of
                             (x, y, z) \<Rightarrow> (x, y))) \<and>
        pointsInBBox g =
          kd_range (searchIndex (rg_app g))
            (fst (getMouseGlPos g) - scaledPointSize g / width (rg_app g))
            (snd (getMouseGlPos g) - scaledPointSize g / height (rg_app g))
            (fst (getMouseGlPos g) + scaledPointSize g / width (rg_app g))
            (snd (getMouseGlPos g) + scaledPointSize g / height (rg_app g)) \<and>
        (pointsInBBox g = [] \<longrightarrow> raycast g = Inr None)"
    if "mat3_det ?M = 0"
  proof -
    from that have n: "mat3_invert ?M = None" by (simp add: mat3_invert_None_iff)
    have "getScatterGlPos pos g = (case pos of Some p \<Rightarrow> p | None \<Rightarrow> getMouseGlPos g) \<and>
        getScatterGlPos pos g =
          (case (case pos of Some p \<Rightarrow> p | None \<Rightarrow> getMouseGlPos g) of
             (xGl, yGl) \<Rightarrow> (case vec3_transformMat3 (xGl, yGl, 1) (Mat3 1 0 0 0 1 0 0 0 1) of
                             (x, y, z) \<Rightarrow> (x, y)))"
      using getScatterGlPos_singular[OF n, of pos] by (simp split: prod.splits option.splits)
    then show ?thesis using n pointsInBBox_singular[OF n] raycast_no_candidates[of g] by blast
  qed
  have c: "\<exists>m. mat3_invert ?M = Some m \<and> mat3_multiply ?M m = mat3_create \<and>
             getScatterGlPos pos g =
               (case (case pos of Some p \<Rightarrow> p | None \<Rightarrow> getMouseGlPos g) of
                  (xGl, yGl) \<Rightarrow> (case vec3_transformMat3 (xGl, yGl, 1) m of (x, y, z) \<Rightarrow> (x, y)))"
    if "mat3_det ?M \<noteq> 0"
  proof -
    from that obtain m where m: "mat3_invert ?M = Some m"
      using mat3_invert_None_iff[of ?M] by (cases "mat3_invert ?M") auto
    from getScatterGlPos_regular[OF m] mat3_invert_right[OF m] m show ?thesis by blast
  qed
  show ?thesis using a b c by blast
qed

theorem C10_getScatterGlPos_total_with_identity_fallback_witness:
  "mat3_det (mat3_multiply (projection (rg_state collapsed)) (transform (rg_state collapsed))) = 0 \<and>
   getScatterGlPos_steps None collapsed = Inr (0, - 1) \<and>
   getScatterGlPos None collapsed = (0, - 1) \<and>
   getScatterGlPos (Some (1 / 2, 1 / 4)) collapsed = (1 / 2, 1 / 4) \<and>
   mat3_det (mat3_multiply (projection (rg_state (squeezed [(500, 500, 0), (250, 250, 1)])))
       (transform (rg_state (squeezed [(500, 500, 0), (250, 250, 1)])))) = 0 \<and>
   pointsInBBox (squeezed [(500, 500, 0), (250, 250, 1)]) = [] \<and>
   raycast (squeezed [(500, 500, 0), (250, 250, 1)]) = Inr None \<and>
   mat3_det (mat3_multiply (projection (rg_state (example_at (1, 2)))) (transform (rg_state (example_at (1, 2))))) \<noteq> 0 \<and>
   getScatterGlPos None (example_at (1, 2)) = (1, 2)"
proof -
  have d0: "mat3_det (mat3_multiply (projection (rg_state collapsed)) (transform (rg_state collapsed))) = 0"
    using collapsed_state(1) by (simp add: mat3_invert_None_iff)
  have d1: "mat3_det (mat3_multiply (projection (rg_state (example_at (1, 2)))) (transform (rg_state (example_at (1, 2))))) \<noteq> 0"
    by (simp add: example_defs mat3_projection_def mat3_create_def)
  have d2: "mat3_det (mat3_multiply (projection (rg_state (squeezed [(500, 500, 0), (250, 250, 1)])))
       (transform (rg_state (squeezed [(500, 500, 0), (250, 250, 1)])))) = 0"
    using squeezed_fields(4)[of "[(500, 500, 0), (250, 250, 1)]"] by (simp add: mat3_invert_None_iff)
  have a: "getScatterGlPos None collapsed = (0, - 1)"
    using C10_getScatterGlPos_total_with_identity_fallback[where g = collapsed and pos = None] d0
      collapsed_state(2) by simp
  have s: "getScatterGlPos_steps None collapsed = Inr (0, - 1)"
    using C10_getScatterGlPos_total_with_identity_fallback[where g = collapsed and pos = None] a
    by simp
  have b: "getScatterGlPos (Some (1 / 2, 1 / 4)) collapsed = (1 / 2, 1 / 4)"
    using C10_getScatterGlPos_total_with_identity_fallback[where g = collapsed and pos = "Some (1 / 2, 1 / 4)"] d0
    by simp
  have c: "raycast (squeezed [(500, 500, 0), (250, 250, 1)]) = Inr None"
    using C10_getScatterGlPos_total_with_identity_fallback[where g = "squeezed [(500, 500, 0), (250, 250, 1)]" and pos = None]
      d2 squeezed_bbox(2) by blast
  show ?thesis using d0 d1 d2 a s b c squeezed_bbox(2) example_world[of 1 2] by simp
qed

subsection \<open>Auxiliary facts about the loader\<close>

lemma nodeX_valid: "readable_node n \<Longrightarrow> nodeX n = Inr (coordX n)"
  by (auto simp: readable_node_def nodeX_def coordX_def)

lemma nodeY_valid: "readable_node n \<Longrightarrow> nodeY n = Inr (coordY n)"
  by (auto simp: readable_node_def nodeY_def coordY_def)

lemma nodeXY_Inr: "nodeX n = Inr x \<Longrightarrow> nodeY n = Inr y \<Longrightarrow> readable_node n \<and> x = coordX n \<and> y = coordY n"
  by (auto simp: readable_node_def nodeX_def nodeY_def coordX_def coordY_def split: if_splits option.splits)

lemma nodeX_error: "nodeX n = Inl e \<Longrightarrow> e = TypeError"
  by (auto simp: nodeX_def split: if_splits option.splits)

lemma nodeY_error: "nodeY n = Inl e \<Longrightarrow> e = TypeError"
  by (auto simp: nodeY_def split: if_splits option.splits)

lemma nodeExtents_valid:
  "list_all readable_node ns \<Longrightarrow> \<exists>ex'. nodeExtents ns ex = Inr ex' \<and> ext_weight ex' = ext_weight ex"
proof (induction ns arbitrary: ex)
  case Nil
  then show ?case by simp
next
  case (Cons n ns)
  then have v: "readable_node n" and vs: "list_all readable_node ns" by simp_all
  show ?case
    using Cons.IH[OF vs, of "ex\<lparr>ext_size := widen (ext_size ex) (node_size n),
                               ext_x := widen (ext_x ex) (coordX n),
                               ext_y := widen (ext_y ex) (coordY n)\<rparr>"]
    by (simp add: nodeX_valid[OF v] nodeY_valid[OF v] Let_def)
qed

lemma nodeExtents_Inr:
  "nodeExtents ns ex = Inr ex' \<Longrightarrow> list_all readable_node ns"
proof (induction ns arbitrary: ex)
  case Nil
  then show ?case by simp
next
  case (Cons n ns)
  from Cons.prems obtain x y where xy: "nodeX n = Inr x" "nodeY n = Inr y"
    by (auto simp: Let_def split: sum.splits)
  with Cons.prems obtain ex1 where "nodeExtents ns ex1 = Inr ex'" by (simp add: Let_def)
  from Cons.IH[OF this] nodeXY_Inr[OF xy] show ?case by simp
qed

lemma nodeExtents_error: "nodeExtents ns ex = Inl e \<Longrightarrow> e = TypeError"
proof (induction ns arbitrary: ex)
  case Nil
  then show ?case by simp
next
  case (Cons n ns)
  then show ?case
    by (auto simp: Let_def split: sum.splits dest: nodeX_error nodeY_error)
qed

lemma loadNodes_valid:
  assumes "list_all readable_node ns"
  shows "\<exists>ld'. loadNodes st glsl sc i ns ld = Inr ld' \<and>
     nodesPositions (ld_matrices ld') =
       nodesPositions (ld_matrices ld) @ map (\<lambda>(j, n). placed sc j n) (zip [i ..< i + length ns] ns) \<and>
     sizes (ld_matrices ld') =
       sizes (ld_matrices ld) @ map (\<lambda>n. scale_apply (scale_size sc) (node_size n)) ns \<and>
     nodeColors (ld_matrices ld') = nodeColors (ld_matrices ld) @ map (nodeColor st glsl) ns \<and>
     edgesPositionsByWeight (ld_matrices ld') = edgesPositionsByWeight (ld_matrices ld) \<and>
     ld_links ld' = ld_links ld \<and>
     dom (ld_nodes ld') = dom (ld_nodes ld) \<union> node_id ` set ns \<and>
     (\<forall>j < length ns. ld_nodeIndex ld' (i + j) = Some (node_id (ns ! j))) \<and>
     (\<forall>k < i. ld_nodeIndex ld' k = ld_nodeIndex ld k)"
  using assms
proof (induction ns arbitrary: i ld)
  case Nil
  then show ?case by simp
next
  case (Cons n ns)
  then have v: "readable_node n" and vs: "list_all readable_node ns" by simp_all
  let ?pos = "placed sc i n"
  let ?ld1 = "ld\<lparr>ld_nodes := (ld_nodes ld)(node_id n \<mapsto>
                            nodeData n (coordX n) (coordY n) i ?pos (scale_apply (scale_size sc) (node_size n))),
                         ld_nodeIndex := (ld_nodeIndex ld)(i \<mapsto> node_id n),
                         ld_matrices := (ld_matrices ld)
                           \<lparr>nodesPositions := nodesPositions (ld_matrices ld) @ [?pos],
                            nodeColors := nodeColors (ld_matrices ld) @ [nodeColor st glsl n],
                            sizes := sizes (ld_matrices ld) @ [scale_apply (scale_size sc) (node_size n)]\<rparr>\<rparr>"
  have step: "loadNodes st glsl sc i (n # ns) ld = loadNodes st glsl sc (Suc i) ns ?ld1"
    by (simp add: nodeX_valid[OF v] nodeY_valid[OF v] Let_def placed_def)
  from Cons.IH[OF vs, of "Suc i" ?ld1] obtain ld' where
    r: "loadNodes st glsl sc (Suc i) ns ?ld1 = Inr ld'"
    and p: "nodesPositions (ld_matrices ld') =
       nodesPositions (ld_matrices ?ld1) @ map (\<lambda>(j, n). placed sc j n) (zip [Suc i ..< Suc i + length ns] ns)"
    and s: "sizes (ld_matrices ld') =
       sizes (ld_matrices ?ld1) @ map (\<lambda>n. scale_apply (scale_size sc) (node_size n)) ns"
    and c: "nodeColors (ld_matrices ld') = nodeColors (ld_matrices ?ld1) @ map (nodeColor st glsl) ns"
    and e: "edgesPositionsByWeight (ld_matrices ld') = edgesPositionsByWeight (ld_matrices ?ld1)"
    and l: "ld_links ld' = ld_links ?ld1"
    and d: "dom (ld_nodes ld') = dom (ld_nodes ?ld1) \<union> node_id ` set ns"
    and ix: "\<forall>j < length ns. ld_nodeIndex ld' (Suc i + j) = Some (node_id (ns ! j))"
    and keep: "\<forall>k < Suc i. ld_nodeIndex ld' k = ld_nodeIndex ?ld1 k"
    by blast
  have z: "zip [i ..< i + length (n # ns)] (n # ns) = (i, n) # zip [Suc i ..< Suc i + length ns] ns"
    by (simp del: upt_Suc add: upt_conv_Cons)
  have ix': "\<forall>j < length (n # ns). ld_nodeIndex ld' (i + j) = Some (node_id ((n # ns) ! j))"
  proof (intro allI impI)
    fix j assume "j < length (n # ns)"
    show "ld_nodeIndex ld' (i + j) = Some (node_id ((n # ns) ! j))"
    proof (cases j)
      case 0
      then show ?thesis using keep by simp
    next
      case (Suc j')
      then show ?thesis using ix \<open>j < length (n # ns)\<close> by simp
    qed
  qed
  have keep': "\<forall>k < i. ld_nodeIndex ld' k = ld_nodeIndex ld k" using keep by simp
  show ?case
    unfolding step
    using r p s c e l d ix' keep' unfolding z by (intro exI[of _ ld']) auto
qed

lemma loadNodes_Inr:
  "loadNodes st glsl sc i ns ld = Inr ld' \<Longrightarrow> list_all readable_node ns"
proof (induction ns arbitrary: i ld)
  case Nil
  then show ?case by simp
next
  case (Cons n ns)
  from Cons.prems obtain x y where xy: "nodeX n = Inr x" "nodeY n = Inr y"
    by (auto split: sum.splits)
  with Cons.prems obtain ld1 where "loadNodes st glsl sc (Suc i) ns ld1 = Inr ld'"
    by (simp add: Let_def)
  from Cons.IH[OF this] nodeXY_Inr[OF xy] show ?case by simp
qed

lemma loadNodes_error: "loadNodes st glsl sc i ns ld = Inl e \<Longrightarrow> e = TypeError"
proof (induction ns arbitrary: i ld)
  case Nil
  then show ?case by simp
next
  case (Cons n ns)
  then show ?case
    by (auto simp: Let_def split: sum.splits dest: nodeX_error nodeY_error)
qed

lemma endPosition_error: "endPosition ld i = Inl e \<Longrightarrow> e = TypeError"
  by (auto simp: endPosition_def split: option.splits)

lemma endPosition_links [simp]: "endPosition (ld\<lparr>ld_links := l\<rparr>) i = endPosition ld i"
  by (simp add: endPosition_def split: option.splits)

lemma endPosition_known:
  "s \<in> dom (ld_nodes ld) \<Longrightarrow>
     endPosition ld s = Inr (case the (ld_nodes ld s) ''position'' of Some v \<Rightarrow> v | None \<Rightarrow> Prim Undefined)"
  by (auto simp: endPosition_def split: option.splits)

text \<open>
  The edge loop throws a TypeError (an end that names no loaded node) or the \<open>Error\<close>
  of \<open>addNode\<close> (an end without id).
\<close>

lemma loadEdges_error:
  "loadEdges st sc i es ld = Inl e \<Longrightarrow> e = TypeError \<or> e = Error ''Invalid node identifier''"
proof (induction es arbitrary: i ld)
  case Nil
  then show ?case by simp
next
  case (Cons a es)
  then show ?case
    by (auto simp: Let_def split: sum.splits option.splits dest: endPosition_error)
qed

lemma fst_pushBucket: "fst ` set (pushBucket k ps bs) = insert k (fst ` set bs)"
  by (induction k ps bs rule: pushBucket.induct) auto

lemma loadEdges_Inr:
  assumes "loadEdges st sc i es ld = Inr ld'"
  shows "nodesPositions (ld_matrices ld') = nodesPositions (ld_matrices ld) \<and>
         sizes (ld_matrices ld') = sizes (ld_matrices ld) \<and>
         nodeColors (ld_matrices ld') = nodeColors (ld_matrices ld) \<and>
         ld_nodes ld' = ld_nodes ld \<and> ld_nodeIndex ld' = ld_nodeIndex ld \<and>
         map l_weight (ld_links ld') = map l_weight (ld_links ld) @ map (edgeWeight sc) es \<and>
         set (map fst (edgesPositionsByWeight (ld_matrices ld'))) =
           set (map fst (edgesPositionsByWeight (ld_matrices ld))) \<union> edgeWeight sc ` set es"
  using assms
proof (induction es arbitrary: i ld)
  case Nil
  then show ?case by simp
next
  case (Cons e es)
  from Cons.prems obtain src tgt sp tp where
    src: "or_id (edge_sourceID e) (edge_source e) = Some src"
    and tgt: "or_id (edge_targetID e) (edge_target e) = Some tgt"
    and sp: "endPosition ld src = Inr sp" and tp: "endPosition ld tgt = Inr tp"
    by (auto simp: Let_def split: sum.splits option.splits)
  let ?ld2 = "ld\<lparr>ld_links := ld_links ld @
                  [\<lparr>l_from = src, l_to = tgt, l_weight = edgeWeight sc e,
                    l_color = (case edge_color e of Some c \<Rightarrow> c | None \<Rightarrow> defaultEdgesColor st), l_index = i\<rparr>],
                ld_matrices := (ld_matrices ld)
                       \<lparr>edgesPositionsByWeight :=
                          pushBucket (edgeWeight sc e) [sp, tp] (edgesPositionsByWeight (ld_matrices ld))\<rparr>\<rparr>"
  from Cons.prems src tgt sp tp have "loadEdges st sc (Suc i) es ?ld2 = Inr ld'"
    by (simp add: Let_def)
  from Cons.IH[OF this] show ?case by (simp add: fst_pushBucket)
qed

lemma loadEdges_valid:
  assumes "list_all (ends_known (dom (ld_nodes ld))) es"
  shows "\<exists>ld'. loadEdges st sc i es ld = Inr ld'"
  using assms
proof (induction es arbitrary: i ld)
  case Nil
  then show ?case by simp
next
  case (Cons e es)
  from Cons.prems have k: "ends_known (dom (ld_nodes ld)) e"
    and ks: "list_all (ends_known (dom (ld_nodes ld))) es" by simp_all
  from k obtain src tgt where
    src: "or_id (edge_sourceID e) (edge_source e) = Some src" "src \<in> dom (ld_nodes ld)"
    and tgt: "or_id (edge_targetID e) (edge_target e) = Some tgt" "tgt \<in> dom (ld_nodes ld)"
    by (auto simp: ends_known_def split: option.splits)
  from endPosition_known[OF src(2)] endPosition_known[OF tgt(2)]
  obtain sp tp where sp: "endPosition ld src = Inr sp" and tp: "endPosition ld tgt = Inr tp"
    by blast
  show ?case
    using src(1) tgt(1) sp tp ks by (simp add: Let_def Cons.IH)
qed

lemma weightExtent_error: "weightExtent st edges = Inl e \<Longrightarrow> e = TypeError"
  by (auto simp: weightExtent_def Let_def split: if_splits option.splits list.splits)

lemma loadScales_error: "loadScales st w h nodes edges = Inl e \<Longrightarrow> e = TypeError"
  by (auto simp: loadScales_def split: sum.splits dest: weightExtent_error nodeExtents_error)

lemma loadData_error:
  "loadData st glsl w h nodes edges = Inl e \<Longrightarrow> e = TypeError \<or> e = Error ''Invalid node identifier''"
  by (auto simp: loadData_def split: sum.splits if_splits option.splits
        dest: loadScales_error loadNodes_error loadEdges_error)

lemma loadScales_Inr: "loadScales st w h nodes edges = Inr sc \<Longrightarrow> list_all readable_node nodes"
  by (auto simp: loadScales_def split: sum.splits dest: nodeExtents_Inr)

lemma zip_upt_nth:
  "i < length ns \<Longrightarrow> map (\<lambda>(j, n). f j n) (zip [0 ..< 0 + length ns] ns) ! i = f i (ns ! i)"
  by simp

text \<open>What a successful load has stored for the nodes.\<close>

lemma loadData_Inr:
  assumes ok: "loadData st glsl w h nodes edges = Inr ld"
  shows "\<exists>sc. loadScales st w h nodes edges = Inr sc \<and>
           nodesPositions (ld_matrices ld) = map (\<lambda>(j, n). placed sc j n) (zip [0 ..< 0 + length nodes] nodes) \<and>
           sizes (ld_matrices ld) = map (\<lambda>n. scale_apply (scale_size sc) (node_size n)) nodes \<and>
           nodeColors (ld_matrices ld) = map (nodeColor st glsl) nodes \<and>
           (\<forall>j < length nodes. ld_nodeIndex ld j = Some (node_id (nodes ! j)))"
proof -
  from ok obtain sc where sc: "loadScales st w h nodes edges = Inr sc"
    by (auto simp: loadData_def split: sum.splits)
  from loadScales_Inr[OF sc] have v: "list_all readable_node nodes" .
  from loadNodes_valid[OF v, of st glsl sc 0 empty_loaded] obtain ld1 where
    l1: "loadNodes st glsl sc 0 nodes empty_loaded = Inr ld1"
    and p: "nodesPositions (ld_matrices ld1) = map (\<lambda>(j, n). placed sc j n) (zip [0 ..< 0 + length nodes] nodes)"
    and s: "sizes (ld_matrices ld1) = map (\<lambda>n. scale_apply (scale_size sc) (node_size n)) nodes"
    and c: "nodeColors (ld_matrices ld1) = map (nodeColor st glsl) nodes"
    and ix: "\<forall>j < length nodes. ld_nodeIndex ld1 (0 + j) = Some (node_id (nodes ! j))"
    by (auto simp: empty_loaded_def)
  show ?thesis
  proof (cases "showEdges st")
    case False
    with ok sc l1 have "ld = ld1" by (simp add: loadData_def)
    with sc p s c ix show ?thesis by simp
  next
    case True
    with ok sc l1 obtain es where "loadEdges st sc 0 es ld1 = Inr ld"
      by (auto simp: loadData_def split: option.splits)
    from loadEdges_Inr[OF this] sc p s c ix show ?thesis by simp
  qed
qed

text \<open>
  A load succeeds on nodes whose coordinates it can read and, when edges are shown, a
  non-empty list of edges between them.
\<close>

lemma loadData_valid:
  assumes v: "list_all readable_node nodes"
    and e: "\<not> showEdges st \<or> (\<exists>es. edges = Some es \<and> es \<noteq> [] \<and> list_all (ends_known (node_id ` set nodes)) es)"
  shows "\<exists>ld. loadData st glsl w h nodes edges = Inr ld"
proof -
  have "\<exists>wext. weightExtent st edges = Inr wext"
    using e by (auto simp: weightExtent_def Let_def split: list.splits)
  then obtain wext where we: "weightExtent st edges = Inr wext" by blast
  from nodeExtents_valid[OF v, of "initial_extents wext"] obtain ex where
    "nodeExtents nodes (initial_extents wext) = Inr ex" by blast
  with we have sc: "loadScales st w h nodes edges = Inr (makeScales st w h ex)"
    by (simp add: loadScales_def)
  from loadNodes_valid[OF v, of st glsl "makeScales st w h ex" 0 empty_loaded] obtain ld1 where
    l1: "loadNodes st glsl (makeScales st w h ex) 0 nodes empty_loaded = Inr ld1"
    and d: "dom (ld_nodes ld1) = dom (ld_nodes empty_loaded) \<union> node_id ` set nodes"
    by blast
  show ?thesis
  proof (cases "showEdges st")
    case False
    then show ?thesis using sc l1 by (simp add: loadData_def)
  next
    case True
    with e obtain es where es: "edges = Some es" "list_all (ends_known (node_id ` set nodes)) es" by blast
    from d have "dom (ld_nodes ld1) = node_id ` set nodes" by (simp add: empty_loaded_def)
    with es(2) have "list_all (ends_known (dom (ld_nodes ld1))) es" by simp
    from loadEdges_valid[OF this, of st "makeScales st w h ex" 0] True sc l1 es(1)
    show ?thesis by (simp add: loadData_def)
  qed
qed

lemmas js_defs = js_lt_def js_gt_def js_ge_def js_sub_def js_add_def js_mul_def js_div_def js_seq_def
  Math_min_def signed_inf_def

lemmas load_defs = loadData_def loadScales_def weightExtent_def initial_extents_def widen_def
  makeScales_def layoutAspectRatio_def scaleLinear_def scaleLinearRound_def nodeX_def nodeY_def
  empty_loaded_def d3Extent_def

lemmas apply_defs = scale_apply_def normalize_def interpolate_def edgeWeight_def or_id_def
  endPosition_def nodeColor_def

lemma example_scales_ab:
  "loadScales default_settings 500 500 [node_a, node_b] (Some [edge_ab Undefined (Num 1)]) =
     Inr \<lparr>scale_size = \<lparr>sc_domain = (Num 1, Num 3), sc_range = (Num 5, Num 30), sc_round = False\<rparr>,
          scale_x = \<lparr>sc_domain = (Num 10, Num 110), sc_range = (Num 150, Num 350), sc_round = False\<rparr>,
          scale_y = \<lparr>sc_domain = (Num 20, Num 220), sc_range = (Num 50, Num 450), sc_round = False\<rparr>,
          scale_weight = \<lparr>sc_domain = (Num 1, Num 1), sc_range = (Num 1, Num 1), sc_round = True\<rparr>\<rparr>"
  by (simp add: load_defs js_defs default_settings_def node_a_def node_b_def edge_ab_def Let_def)

lemma example_load_ab:
  "load_positions (loadData default_settings example_glslColor 500 500 [node_a, node_b]
       (Some [edge_ab Undefined (Num 1)])) = Inr [(Num 150, Num 50, Num 0), (Num 350, Num 450, Num 1)]"
  "load_sizes (loadData default_settings example_glslColor 500 500 [node_a, node_b]
       (Some [edge_ab Undefined (Num 1)])) = Inr [Num 5, Num 30]"
  "load_widths (loadData default_settings example_glslColor 500 500 [node_a, node_b]
       (Some [edge_ab Undefined (Num 1)])) = Inr [Num 1]"
  unfolding loadData_def example_scales_ab
  by (simp_all add: load_positions_def load_sizes_def load_widths_def empty_loaded_def nodeX_def nodeY_def
        apply_defs js_defs default_settings_def node_a_def node_b_def edge_ab_def Let_def)

subsection \<open>C6: what the constructor throws\<close>

text \<open>
  The four checks throw their \<open>Error\<close> exactly under the four conditions; every other
  failure of the constructor is raised while loading, and is a TypeError or the
  \<open>Error\<close> of \<open>addNode\<close> for an edge end without id.
\<close>

lemma construct_descriptive_error:
  "(\<exists>msg. construct glsl cont data opts = Inl (Error msg) \<and> msg \<noteq> ''Invalid node identifier'') \<longleftrightarrow>
     (cont = None \<or> data = None \<or>
      (\<exists>d. data = Some d \<and>
           (data_nodes d = None \<or>
            ((opt_showEdges opts = None \<or> opt_showEdges opts = Some True) \<and> data_edges d = None))))"
proof (cases cont)
  case None
  then show ?thesis by (simp add: construct_def)
next
  case (Some c)
  show ?thesis
  proof (cases data)
    case None
    then show ?thesis using Some by (simp add: construct_def)
  next
    case d: (Some d)
    show ?thesis
    proof (cases "data_nodes d")
      case None
      then show ?thesis using Some d by (simp add: construct_def)
    next
      case ns: (Some nodes)
      show ?thesis
      proof (cases "(opt_showEdges opts = None \<or> opt_showEdges opts = Some True) \<and> data_edges d = None")
        case True
        then show ?thesis using Some d ns by (auto simp: construct_def)
      next
        case False
        then have "construct glsl cont data opts =
            loadData (merge_settings default_settings opts) glsl (clientWidth c) (clientHeight c)
              nodes (data_edges d)"
          using Some d ns by (auto simp: construct_def)
        then show ?thesis using Some False d ns loadData_error[of "merge_settings default_settings opts" glsl
              "clientWidth c" "clientHeight c" nodes "data_edges d"]
          by auto
      qed
    qed
  qed
qed

text \<open>
  Claim C6 holds of the four checks, and the code breaks its last part: a container,
  data with \<open>nodes\<close> and an empty \<open>edges\<close> list and no options pass the checks, and the
  constructor throws a TypeError (\<open>edges[0].size\<close> in \<open>loadData\<close>). So does the example
  scenario of the specification, whose first node has \<open>x: 0\<close> and no \<open>position\<close> object.
\<close>

theorem C6_constructor_throws_on_well_formed_input:
  "construct example_glslColor (Some example_container)
     (Some \<lparr>data_nodes = Some [node_a, node_b], data_edges = Some []\<rparr>) no_options = Inl TypeError \<and>
   construct example_glslColor (Some example_container)
     (Some \<lparr>data_nodes = Some [node_origin, node_far], data_edges = Some [edge_ab Undefined (Num 1)]\<rparr>)
     no_options = Inl TypeError"
  by (simp add: construct_def no_options_def merge_settings_def default_settings_def load_defs
        js_defs node_origin_def node_far_def edge_ab_def Let_def)

subsection \<open>C7: one slot per node, in input order\<close>

text \<open>
  After a load that returns, the position, colour and size arrays have
  \<open>nodes.length\<close> entries each (and \<open>loadBuffers\<close> fills the node buffer with the
  position array); slot \<open>i\<close> of each holds what was computed from the node at input
  position \<open>i\<close>, the third component of its position is \<open>i\<close>, and \<open>nodeIndex\<close> maps
  \<open>i\<close> to its id. The load returns for every list of nodes whose coordinates the
  loader can read (with, when edges are shown, a non-empty list of edges between
  these nodes).
\<close>

lemma parallel_arrays_follow_input_order:
  "(loadData st glsl w h nodes edges = Inr ld \<longrightarrow>
      length (nodesPositions (ld_matrices ld)) = length nodes \<and>
      length (nodeColors (ld_matrices ld)) = length nodes \<and>
      length (sizes (ld_matrices ld)) = length nodes \<and>
      buf_nodes (loadBuffers st None (ld_matrices ld) empty_buffers) = Some (nodesPositions (ld_matrices ld)) \<and>
      (\<exists>sc. loadScales st w h nodes edges = Inr sc \<and>
         (\<forall>i < length nodes.
            nodesPositions (ld_matrices ld) ! i = placed sc i (nodes ! i) \<and>
            snd (snd (nodesPositions (ld_matrices ld) ! i)) = Num (real i) \<and>
            sizes (ld_matrices ld) ! i = scale_apply (scale_size sc) (node_size (nodes ! i)) \<and>
            nodeColors (ld_matrices ld) ! i = nodeColor st glsl (nodes ! i) \<and>
            ld_nodeIndex ld i = Some (node_id (nodes ! i)))))
   \<and> (list_all readable_node nodes \<and>
       (\<not> showEdges st \<or>
        (\<exists>es. edges = Some es \<and> es \<noteq> [] \<and> list_all (ends_known (node_id ` set nodes)) es)) \<longrightarrow>
      (\<exists>ld. loadData st glsl w h nodes edges = Inr ld))"
proof -
  have a: "length (nodesPositions (ld_matrices ld)) = length nodes \<and>
      length (nodeColors (ld_matrices ld)) = length nodes \<and>
      length (sizes (ld_matrices ld)) = length nodes \<and>
      buf_nodes (loadBuffers st None (ld_matrices ld) empty_buffers) = Some (nodesPositions (ld_matrices ld)) \<and>
      (\<exists>sc. loadScales st w h nodes edges = Inr sc \<and>
         (\<forall>i < length nodes.
            nodesPositions (ld_matrices ld) ! i = placed sc i (nodes ! i) \<and>
            snd (snd (nodesPositions (ld_matrices ld) ! i)) = Num (real i) \<and>
            sizes (ld_matrices ld) ! i = scale_apply (scale_size sc) (node_size (nodes ! i)) \<and>
            nodeColors (ld_matrices ld) ! i = nodeColor st glsl (nodes ! i) \<and>
            ld_nodeIndex ld i = Some (node_id (nodes ! i))))"
    if ok: "loadData st glsl w h nodes edges = Inr ld"
  proof -
    from loadData_Inr[OF ok] obtain sc where sc: "loadScales st w h nodes edges = Inr sc"
      and p: "nodesPositions (ld_matrices ld) = map (\<lambda>(j, n). placed sc j n) (zip [0 ..< 0 + length nodes] nodes)"
      and s: "sizes (ld_matrices ld) = map (\<lambda>n. scale_apply (scale_size sc) (node_size n)) nodes"
      and c: "nodeColors (ld_matrices ld) = map (nodeColor st glsl) nodes"
      and ix: "\<forall>j < length nodes. ld_nodeIndex ld j = Some (node_id (nodes ! j))"
      by blast
    have pi: "nodesPositions (ld_matrices ld) ! i = placed sc i (nodes ! i)" if "i < length nodes" for i
      unfolding p using that by simp
    have "\<forall>i < length nodes.
            nodesPositions (ld_matrices ld) ! i = placed sc i (nodes ! i) \<and>
            snd (snd (nodesPositions (ld_matrices ld) ! i)) = Num (real i) \<and>
            sizes (ld_matrices ld) ! i = scale_apply (scale_size sc) (node_size (nodes ! i)) \<and>
            nodeColors (ld_matrices ld) ! i = nodeColor st glsl (nodes ! i) \<and>
            ld_nodeIndex ld i = Some (node_id (nodes ! i))"
      using pi s c ix by (simp add: placed_def)
    moreover have "length (nodesPositions (ld_matrices ld)) = length nodes"
      "length (nodeColors (ld_matrices ld)) = length nodes"
      "length (sizes (ld_matrices ld)) = length nodes"
      using p s c by simp_all
    moreover have "buf_nodes (loadBuffers st None (ld_matrices ld) empty_buffers) =
                     Some (nodesPositions (ld_matrices ld))"
      by (simp add: loadBuffers_def Let_def)
    ultimately show ?thesis using sc by blast
  qed
  have b: "\<exists>ld. loadData st glsl w h nodes edges = Inr ld"
    if "list_all readable_node nodes"
      "\<not> showEdges st \<or>
        (\<exists>es. edges = Some es \<and> es \<noteq> [] \<and> list_all (ends_known (node_id ` set nodes)) es)"
    using loadData_valid[OF that] .
  show ?thesis using a b by blast
qed

lemma example_valid_ab:
  "list_all readable_node [node_a, node_b]"
  "list_all (ends_known (node_id ` set [node_a, node_b])) [edge_ab Undefined (Num 1)]"
  "showEdges default_settings"
  by (simp_all add: readable_node_def ends_known_def or_id_def node_a_def node_b_def edge_ab_def
        default_settings_def)

lemma parallel_arrays_of_two_nodes:
  "list_all readable_node [node_a, node_b] \<and>
   showEdges default_settings \<and>
   list_all (ends_known (node_id ` set [node_a, node_b])) [edge_ab Undefined (Num 1)] \<and>
   load_positions (loadData default_settings example_glslColor 500 500 [node_a, node_b]
       (Some [edge_ab Undefined (Num 1)])) = Inr [(Num 150, Num 50, Num 0), (Num 350, Num 450, Num 1)] \<and>
   (\<exists>ld. loadData default_settings example_glslColor 500 500 [node_a, node_b]
            (Some [edge_ab Undefined (Num 1)]) = Inr ld \<and>
         length (nodesPositions (ld_matrices ld)) = 2 \<and>
         length (nodeColors (ld_matrices ld)) = 2 \<and>
         length (sizes (ld_matrices ld)) = 2 \<and>
         snd (snd (nodesPositions (ld_matrices ld) ! 1)) = Num 1 \<and>
         ld_nodeIndex ld 1 = Some ''b'')"
proof -
  let ?load = "loadData default_settings example_glslColor 500 500 [node_a, node_b]
                 (Some [edge_ab Undefined (Num 1)])"
  have "\<exists>ld. ?load = Inr ld"
    using parallel_arrays_follow_input_order[where st = default_settings and glsl = example_glslColor
        and w = 500 and h = 500 and nodes = "[node_a, node_b]" and edges = "Some [edge_ab Undefined (Num 1)]"]
      example_valid_ab by blast
  then obtain ld where ld: "?load = Inr ld" by blast
  from parallel_arrays_follow_input_order[where st = default_settings and glsl = example_glslColor
        and w = 500 and h = 500 and nodes = "[node_a, node_b]" and edges = "Some [edge_ab Undefined (Num 1)]"
        and ld = ld] ld
  obtain sc where len: "length (nodesPositions (ld_matrices ld)) = length [node_a, node_b]"
      "length (nodeColors (ld_matrices ld)) = length [node_a, node_b]"
      "length (sizes (ld_matrices ld)) = length [node_a, node_b]"
    and each: "\<forall>i < length [node_a, node_b].
            nodesPositions (ld_matrices ld) ! i = placed sc i ([node_a, node_b] ! i) \<and>
            snd (snd (nodesPositions (ld_matrices ld) ! i)) = Num (real i) \<and>
            sizes (ld_matrices ld) ! i = scale_apply (scale_size sc) (node_size ([node_a, node_b] ! i)) \<and>
            nodeColors (ld_matrices ld) ! i = nodeColor default_settings example_glslColor ([node_a, node_b] ! i) \<and>
            ld_nodeIndex ld i = Some (node_id ([node_a, node_b] ! i))"
    by blast
  have "1 < length [node_a, node_b]" by simp
  from each[rule_format, OF this] have one: "snd (snd (nodesPositions (ld_matrices ld) ! 1)) = Num 1"
    "ld_nodeIndex ld 1 = Some ''b''"
    by (simp_all add: node_b_def placed_def)
  show ?thesis using example_valid_ab example_load_ab(1) ld len one by simp
qed

text \<open>
  Claim C7 holds of every load that returns (the two lemmas above), and the code breaks
  it on node arrays that are valid by the node record of the specification. The two
  nodes of its example scenario, with \<open>x: 0\<close> and \<open>y: 0\<close> and no \<open>position\<close> object, make
  \<open>loadData\<close> throw a TypeError at \<open>node.position.x\<close>, with their edge and also when
  no edges are shown; two nodes with an empty edge list make it throw at
  \<open>edges[0].size\<close>. Both happen before a slot is written, so the three arrays stay
  empty where the claim has two entries in each. With non-zero coordinates and one
  edge the same load fills two slots.
\<close>

theorem C7_valid_nodes_that_fill_no_slot:
  "nodeX node_origin = Inl TypeError \<and>
   loadData default_settings example_glslColor 500 500 [node_origin, node_far]
       (Some [edge_ab Undefined (Num 1)]) = Inl TypeError \<and>
   loadData (default_settings\<lparr>showEdges := False\<rparr>) example_glslColor 500 500 [node_origin, node_far]
       None = Inl TypeError \<and>
   loadData default_settings example_glslColor 500 500 [node_a, node_b] (Some []) = Inl TypeError \<and>
   load_positions (loadData default_settings example_glslColor 500 500 [node_a, node_b]
       (Some [edge_ab Undefined (Num 1)])) = Inr [(Num 150, Num 50, Num 0), (Num 350, Num 450, Num 1)] \<and>
   load_sizes (loadData default_settings example_glslColor 500 500 [node_a, node_b]
       (Some [edge_ab Undefined (Num 1)])) = Inr [Num 5, Num 30]"
proof -
  have a: "nodeX node_origin = Inl TypeError" by (simp add: nodeX_def node_origin_def)
  have b: "loadData default_settings example_glslColor 500 500 [node_origin, node_far]
       (Some [edge_ab Undefined (Num 1)]) = Inl TypeError"
    by (simp add: load_defs js_defs default_settings_def node_origin_def node_far_def edge_ab_def Let_def)
  have c: "loadData (default_settings\<lparr>showEdges := False\<rparr>) example_glslColor 500 500
       [node_origin, node_far] None = Inl TypeError"
    by (simp add: load_defs js_defs default_settings_def node_origin_def node_far_def Let_def)
  have d: "loadData default_settings example_glslColor 500 500 [node_a, node_b] (Some []) = Inl TypeError"
    by (simp add: load_defs default_settings_def)
  show ?thesis using a b c d example_load_ab(1,2) by simp
qed

subsection \<open>C8: missing coordinates and sizes\<close>



lemma example_bare_data:
  "(case loadData (default_settings\<lparr>showEdges := False\<rparr>) example_glslColor 500 500
            [node_bare, node_b] None of
      Inl e \<Rightarrow> None
    | Inr ld \<Rightarrow> (case ld_nodes ld ''c'' of None \<Rightarrow> None | Some d \<Rightarrow> d ''size'')) = Some (Prim (Num 7))"
  by (simp add: load_defs apply_defs js_defs default_settings_def nodeData_def
        node_bare_def node_b_def Let_def)




subsection \<open>C9: equal edge weights\<close>

lemma extent_step_const: "extent_step (Num v, Num v) (Num v) = (Num v, Num v)"
  by (simp add: js_gt_def js_lt_def)

lemma foldl_extent_const:
  "\<forall>x \<in> set xs. x = Num v \<Longrightarrow> foldl extent_step (Num v, Num v) xs = (Num v, Num v)"
  by (induction xs) (simp_all add: extent_step_const)

lemma d3Extent_const:
  assumes "xs \<noteq> []" "\<forall>x \<in> set xs. x = Num v"
  shows "d3Extent xs = (Num v, Num v)"
proof (cases xs)
  case Nil
  with assms show ?thesis by simp
next
  case (Cons x xs')
  with assms have "x = Num v" "\<forall>y \<in> set xs'. y = Num v" by simp_all
  then show ?thesis using Cons by (simp add: d3Extent_def js_ge_def js_lt_def foldl_extent_const)
qed

text \<open>
  With the degenerate domain \<open>[v, v]\<close> and the range \<open>[1, 1]\<close>, \<open>normalize\<close> takes its
  constant branch (no division) and every number is mapped to 1.
\<close>

lemma normalize_degenerate: "normalize (Num v) (Num v) x = Num (1 / 2)"
  by (simp add: normalize_def js_sub_def)

lemma degenerate_scale_is_one:
  assumes "\<not> isNaN x"
  shows "scale_apply (scaleLinearRound (Num v, Num v) (Num 1, Num 1)) x = Num 1"
  using assms
  by (simp add: scale_apply_def scaleLinearRound_def js_lt_def normalize_degenerate interpolate_def
        js_add_def js_mul_def js_sub_def)

lemma nodeExtents_weight:
  "nodeExtents ns ex = Inr ex' \<Longrightarrow> ext_weight ex' = ext_weight ex"
proof (induction ns arbitrary: ex)
  case Nil
  then show ?case by simp
next
  case (Cons n ns)
  from Cons.prems obtain x y where xy: "nodeX n = Inr x" "nodeY n = Inr y"
    by (auto simp: Let_def split: sum.splits)
  with Cons.prems have "nodeExtents ns (ex\<lparr>ext_size := widen (ext_size ex) (node_size n),
          ext_x := widen (ext_x ex) x, ext_y := widen (ext_y ex) y\<rparr>) = Inr ex'"
    by (simp add: Let_def)
  from Cons.IH[OF this] show ?case by simp
qed

lemma loadScales_weight:
  assumes "loadScales st w h nodes edges = Inr sc" "weightExtent st edges = Inr wext"
  shows "scale_weight sc =
           scaleLinearRound wext
             (if js_seq (fst wext) (snd wext) then (Num 1, Num 1)
              else (Num (fst (edgesWeightRange st)), Num (snd (edgesWeightRange st))))"
proof -
  from assms obtain ex where ex: "nodeExtents nodes (initial_extents wext) = Inr ex"
    and sc: "sc = makeScales st w h ex"
    by (auto simp: loadScales_def split: sum.splits)
  from nodeExtents_weight[OF ex] have "ext_weight ex = wext" by (simp add: initial_extents_def)
  then show ?thesis unfolding sc by (simp add: makeScales_def split: prod.splits)
qed

text \<open>
  Where the claim holds: all edges carry the same number \<open>v\<close> in the property the
  loader reads for the extent (\<open>size\<close> when the first edge's \<open>size\<close> is truthy, \<open>weight\<close> when
  the edges have no \<open>size\<close>). Then every edge gets the width 1 and there is the one
  bucket 1.
\<close>

lemma equal_weights_give_width_one:
  assumes ok: "loadData st glsl w h nodes (Some es) = Inr ld"
    and se: "showEdges st" and ne: "es \<noteq> []"
    and eq: "(v \<noteq> 0 \<and> (\<forall>e \<in> set es. edge_size e = Num v)) \<or>
             (\<forall>e \<in> set es. edge_size e = Undefined \<and> edge_weight e = Num v)"
  shows "map l_weight (ld_links ld) = replicate (length es) (Num 1) \<and>
         fst ` set (edgesPositionsByWeight (ld_matrices ld)) = {Num 1}"
proof -
  obtain e0 es' where es: "es = e0 # es'" using ne by (cases es) auto
  have wext: "weightExtent st (Some es) = Inr (Num v, Num v)"
  proof -
    from eq show ?thesis
    proof
      assume a: "v \<noteq> 0 \<and> (\<forall>e \<in> set es. edge_size e = Num v)"
      then have "d3Extent (map edge_size es) = (Num v, Num v)"
        using ne by (intro d3Extent_const) auto
      then show ?thesis using a se es by (simp add: weightExtent_def)
    next
      assume a: "\<forall>e \<in> set es. edge_size e = Undefined \<and> edge_weight e = Num v"
      then have "d3Extent (map edge_weight es) = (Num v, Num v)"
        using ne by (intro d3Extent_const) auto
      then show ?thesis using a se es by (simp add: weightExtent_def)
    qed
  qed
  from ok obtain sc ld1 where sc: "loadScales st w h nodes (Some es) = Inr sc"
    and l1: "loadNodes st glsl sc 0 nodes empty_loaded = Inr ld1"
    and le: "loadEdges st sc 0 es ld1 = Inr ld"
    using se by (auto simp: loadData_def split: sum.splits)
  from loadScales_weight[OF sc wext] have sw:
    "scale_weight sc = scaleLinearRound (Num v, Num v) (Num 1, Num 1)"
    by (simp add: js_seq_def)
  have ew: "edgeWeight sc e = Num 1" if "e \<in> set es" for e
    using eq that by (auto simp: edgeWeight_def sw degenerate_scale_is_one)
  from loadNodes_valid[OF loadNodes_Inr[OF l1], of st glsl sc 0 empty_loaded] l1
  have e1: "edgesPositionsByWeight (ld_matrices ld1) = []" "ld_links ld1 = []"
    by (auto simp: empty_loaded_def)
  from loadEdges_Inr[OF le] e1 have
    w: "map l_weight (ld_links ld) = map (edgeWeight sc) es"
    and k: "fst ` set (edgesPositionsByWeight (ld_matrices ld)) = edgeWeight sc ` set es"
    by simp_all
  have "map (edgeWeight sc) es = replicate (length es) (Num 1)"
    using ew by (simp add: map_replicate_const[symmetric] cong: map_cong)
  moreover have "edgeWeight sc ` set es = {Num 1}"
  proof -
    have "e0 \<in> set es" using es by simp
    then have "Num 1 \<in> edgeWeight sc ` set es" using ew[of e0] by force
    moreover have "edgeWeight sc ` set es \<subseteq> {Num 1}" using ew by auto
    ultimately show ?thesis by blast
  qed
  ultimately show ?thesis using w k by simp
qed

lemma example_load_zero:
  "load_weight_scale (loadScales default_settings 500 500 [node_a, node_b]
       (Some [edge_ab (Num 0) Undefined, edge_ab (Num 0) Undefined])) =
     Inr \<lparr>sc_domain = (NaN, NaN), sc_range = (Num 1, Num 1), sc_round = True\<rparr>"
  "load_widths (loadData default_settings example_glslColor 500 500 [node_a, node_b]
       (Some [edge_ab (Num 0) Undefined, edge_ab (Num 0) Undefined])) = Inr [NaN, NaN]"
  "load_bucket_keys (loadData default_settings example_glslColor 500 500 [node_a, node_b]
       (Some [edge_ab (Num 0) Undefined, edge_ab (Num 0) Undefined])) = Inr [NaN]"
  by (simp_all add: load_weight_scale_def load_widths_def load_bucket_keys_def load_defs apply_defs
        js_defs default_settings_def node_a_def node_b_def edge_ab_def Let_def)

lemma example_load_two:
  "load_widths (loadData default_settings example_glslColor 500 500 [node_a, node_b]
       (Some [edge_ab (Num 2) Undefined, edge_ab (Num 2) Undefined])) = Inr [Num 1, Num 1]"
  by (simp add: load_widths_def load_defs apply_defs
        js_defs default_settings_def node_a_def node_b_def edge_ab_def Let_def)

text \<open>
  Claim C9 is right where the extent is read from the property that carries the
  weights, and the code breaks it when every edge has \<open>size: 0\<close>: the first edge's
  \<open>size\<close> is falsy, so the extent is taken over the absent \<open>weight\<close> property and is
  \<open>[undefined, undefined]\<close>; the range collapses to \<open>[1, 1]\<close>, the domain is \<open>[NaN, NaN]\<close>,
  and both edges get the width \<open>NaN\<close> in a single bucket \<open>NaN\<close>, not 1. With \<open>size: 2\<close> on
  both edges the widths are 1.
\<close>

theorem C9_equal_zero_sizes_give_NaN_width:
  "load_weight_scale (loadScales default_settings 500 500 [node_a, node_b]
       (Some [edge_ab (Num 0) Undefined, edge_ab (Num 0) Undefined])) =
     Inr \<lparr>sc_domain = (NaN, NaN), sc_range = (Num 1, Num 1), sc_round = True\<rparr> \<and>
   load_widths (loadData default_settings example_glslColor 500 500 [node_a, node_b]
       (Some [edge_ab (Num 0) Undefined, edge_ab (Num 0) Undefined])) = Inr [NaN, NaN] \<and>
   load_bucket_keys (loadData default_settings example_glslColor 500 500 [node_a, node_b]
       (Some [edge_ab (Num 0) Undefined, edge_ab (Num 0) Undefined])) = Inr [NaN] \<and>
   load_widths (loadData default_settings example_glslColor 500 500 [node_a, node_b]
       (Some [edge_ab (Num 2) Undefined, edge_ab (Num 2) Undefined])) = Inr [Num 1, Num 1]"
  using example_load_zero example_load_two by simp

end
